theory Spec2Isabelle
  imports Complex_Main "HOL-Library.Char_ord" "HOL-Library.List_Lexorder"
    "HOL-Library.Product_Lexorder"
begin

section \<open>Structure Block Exporter: a shallow embedding\<close>

text \<open>
  The definitions below follow \<^verbatim>\<open>structure_block_exporter.py\<close> function by function.
  Python's unbounded integers are \<^typ>\<open>int\<close>, Python strings are \<^typ>\<open>string\<close> (byte
  strings: the ASCII fragment of \<^verbatim>\<open>str\<close>), a finite float is the rational it denotes
  (\<^typ>\<open>rat\<close>; a float tag holds a finite float, and float subtraction is not rounded), a
  \<^verbatim>\<open>dict\<close> is an association list in insertion order with distinct keys, and a raised
  exception is the \<open>Inl\<close> branch of a sum type.
\<close>

subsection \<open>Python string primitives\<close>

text \<open>\<^verbatim>\<open>str.lower\<close> on ASCII letters.\<close>

definition lower_char :: "char \<Rightarrow> char" where
  "lower_char c =
     (if CHR ''A'' \<le> c \<and> c \<le> CHR ''Z'' then char_of (of_char c + (32::nat)) else c)"

definition lower :: "string \<Rightarrow> string" where
  "lower s = map lower_char s"

text \<open>\<^verbatim>\<open>s in t\<close> for strings: \<open>s\<close> occurs in \<open>t\<close> as a contiguous block.\<close>

fun starts_with :: "string \<Rightarrow> string \<Rightarrow> bool" where
  "starts_with [] t = True"
| "starts_with (c # s) [] = False"
| "starts_with (c # s) (d # t) = (c = d \<and> starts_with s t)"

fun str_in :: "string \<Rightarrow> string \<Rightarrow> bool" where
  "str_in s [] = (s = [])"
| "str_in s (d # t) = (starts_with s (d # t) \<or> str_in s t)"

text \<open>
  \<^verbatim>\<open>str.strip()\<close>: the ASCII characters Python counts as whitespace are tab, line feed,
  vertical tab, form feed, carriage return, the four separators \<open>0x1c\<close> to \<open>0x1f\<close> and the
  space.
\<close>

definition is_space :: "char \<Rightarrow> bool" where
  "is_space c = (let n = (of_char c :: nat) in (9 \<le> n \<and> n \<le> 13) \<or> (28 \<le> n \<and> n \<le> 32))"

definition strip :: "string \<Rightarrow> string" where
  "strip s = rev (dropWhile is_space (rev (dropWhile is_space s)))"

text \<open>\<^verbatim>\<open>str(i)\<close> for the non-negative indices that \<^verbatim>\<open>enumerate\<close> produces.\<close>

definition digit_char :: "nat \<Rightarrow> char" where
  "digit_char d = char_of (48 + d)"

fun str_nat :: "nat \<Rightarrow> string" where
  "str_nat n = (if n < 10 then [digit_char n] else str_nat (n div 10) @ [digit_char (n mod 10)])"

declare str_nat.simps [simp del]

subsection \<open>NBT trees\<close>

text \<open>
  The tags of \<^verbatim>\<open>amulet_nbt\<close> the exporter touches. \<open>IntTag\<close> stands for the four integer
  tags (byte, short, int, long), \<open>DoubleTag\<close> for the two floating-point tags, \<open>IntArrayTag\<close>
  for the integer array tags. A compound keeps its entries in the order its \<^verbatim>\<open>keys()\<close>
  lists them.
\<close>

datatype nbt =
    IntTag int
  | DoubleTag rat
  | StringTag string
  | IntArrayTag "int list"
  | DoubleArrayTag "rat list"
  | ListTag "nbt list"
  | CompoundTag "(string \<times> nbt) list"

text \<open>The Python value behind a tag, as \<^verbatim>\<open>_nbt_value\<close> reads it through \<^verbatim>\<open>.value\<close>.\<close>

datatype py_value = PyStr string | PyInt int | PyFloat rat | PyContainer

fun nbt_value :: "nbt \<Rightarrow> py_value" where
  "nbt_value (IntTag n) = PyInt n"
| "nbt_value (DoubleTag r) = PyFloat r"
| "nbt_value (StringTag s) = PyStr s"
| "nbt_value (IntArrayTag xs) = PyContainer"
| "nbt_value (DoubleArrayTag xs) = PyContainer"
| "nbt_value (ListTag vs) = PyContainer"
| "nbt_value (CompoundTag kvs) = PyContainer"

subsection \<open>The built-in \<^verbatim>\<open>int()\<close>\<close>

text \<open>\<^verbatim>\<open>int(x)\<close> of a float truncates towards zero.\<close>

definition trunc :: "rat \<Rightarrow> int" where
  "trunc r = (if r < 0 then - \<lfloor>- r\<rfloor> else \<lfloor>r\<rfloor>)"

text \<open>
  \<^verbatim>\<open>int(s)\<close> of a string. The whitespace skipped at both ends is that of C's
  \<^verbatim>\<open>isspace\<close> (tab, line feed, vertical tab, form feed, carriage return, space), a smaller
  set than that of \<^verbatim>\<open>str.strip\<close>: the separators \<open>0x1c\<close> to \<open>0x1f\<close> are not skipped. One
  sign is allowed, and the rest is decimal digits in groups separated by single
  underscores, at most 4300 digits (the interpreter's default limit on the conversion).
  Anything else raises \<^verbatim>\<open>ValueError\<close>, which is \<open>None\<close> here.
\<close>

definition is_c_space :: "char \<Rightarrow> bool" where
  "is_c_space c = (let n = (of_char c :: nat) in (9 \<le> n \<and> n \<le> 13) \<or> n = 32)"

definition c_strip :: "string \<Rightarrow> string" where
  "c_strip s = rev (dropWhile is_c_space (rev (dropWhile is_c_space s)))"

definition max_str_digits :: nat where
  "max_str_digits = 4300"

definition is_digit :: "char \<Rightarrow> bool" where
  "is_digit c = (CHR ''0'' \<le> c \<and> c \<le> CHR ''9'')"

fun digits_ok :: "string \<Rightarrow> bool" where
  "digits_ok [] = False"
| "digits_ok [c] = is_digit c"
| "digits_ok (c # d # s) =
     (is_digit c \<and> (if d = CHR ''_'' then digits_ok s else digits_ok (d # s)))"

definition digits_value :: "string \<Rightarrow> int" where
  "digits_value s =
     foldl (\<lambda>acc c. 10 * acc + (int (of_char c) - 48)) 0 (filter is_digit s)"

text \<open>The digits after the sign: well grouped, and no more of them than the limit.\<close>

definition number_ok :: "string \<Rightarrow> bool" where
  "number_ok s = (digits_ok s \<and> length (filter is_digit s) \<le> max_str_digits)"

definition int_of_str :: "string \<Rightarrow> int option" where
  "int_of_str s =
     (case c_strip s of
        [] \<Rightarrow> None
      | c # t \<Rightarrow>
          if c = CHR ''-'' then (if number_ok t then Some (- digits_value t) else None)
          else if c = CHR ''+'' then (if number_ok t then Some (digits_value t) else None)
          else if number_ok (c # t) then Some (digits_value (c # t)) else None)"

fun py_int :: "py_value \<Rightarrow> int option" where
  "py_int (PyInt n) = Some n"
| "py_int (PyFloat r) = Some (trunc r)"
| "py_int (PyStr s) = int_of_str s"
| "py_int PyContainer = None"

subsection \<open>Traversal: \<^verbatim>\<open>_iter_nbt_tree\<close>\<close>

text \<open>
  The generator yields \<open>(path, key, value)\<close>; the list is the sequence of its yields. The
  first branch of the source runs on a tag with \<^verbatim>\<open>keys()\<close>, the second on one that
  \<^verbatim>\<open>enumerate\<close> accepts. A child is entered when it has \<^verbatim>\<open>keys\<close> or is a list tag. The
  function is documented for compound and list trees; for a root that is neither, no node
  is produced.
\<close>

fun iter_nbt_tree :: "nbt \<Rightarrow> string \<Rightarrow> (string \<times> string \<times> nbt) list"
  and iter_compound :: "(string \<times> nbt) list \<Rightarrow> string \<Rightarrow> (string \<times> string \<times> nbt) list"
  and iter_list :: "nbt list \<Rightarrow> nat \<Rightarrow> string \<Rightarrow> (string \<times> string \<times> nbt) list"
where
  "iter_nbt_tree (CompoundTag kvs) prefix = iter_compound kvs prefix"
| "iter_nbt_tree (ListTag vs) prefix = iter_list vs 0 prefix"
| "iter_nbt_tree (IntTag n) prefix = []"
| "iter_nbt_tree (DoubleTag r) prefix = []"
| "iter_nbt_tree (StringTag s) prefix = []"
| "iter_nbt_tree (IntArrayTag xs) prefix = []"
| "iter_nbt_tree (DoubleArrayTag xs) prefix = []"
| "iter_compound [] prefix = []"
| "iter_compound ((k, v) # kvs) prefix =
     (let path = (if prefix \<noteq> [] then prefix @ ''/'' @ k else k) in
        (path, k, v) #
        (case v of
           CompoundTag _ \<Rightarrow> iter_nbt_tree v path
         | ListTag _ \<Rightarrow> iter_nbt_tree v path
         | _ \<Rightarrow> [])
        @ iter_compound kvs prefix)"
| "iter_list [] i prefix = []"
| "iter_list (v # vs) i prefix =
     (let path = prefix @ ''['' @ str_nat i @ '']'' in
        (path, str_nat i, v) #
        (case v of
           CompoundTag _ \<Rightarrow> iter_nbt_tree v path
         | ListTag _ \<Rightarrow> iter_nbt_tree v path
         | _ \<Rightarrow> [])
        @ iter_list vs (Suc i) prefix)"

subsection \<open>Fuzzy lookup: \<^verbatim>\<open>_find_first_str\<close> and \<^verbatim>\<open>_find_first_int\<close>\<close>

definition key_matches :: "string list \<Rightarrow> string \<Rightarrow> bool" where
  "key_matches key_substrings k = (let lk = lower k in list_ex (\<lambda>s. str_in s lk) key_substrings)"

fun first_str :: "string list \<Rightarrow> (string \<times> string \<times> nbt) list \<Rightarrow> string option" where
  "first_str subs [] = None"
| "first_str subs ((path, k, v) # rest) =
     (if key_matches subs k then
        (case nbt_value v of
           PyStr val \<Rightarrow> if strip val \<noteq> [] then Some (strip val) else first_str subs rest
         | _ \<Rightarrow> first_str subs rest)
      else first_str subs rest)"

definition find_first_str :: "nbt \<Rightarrow> string list \<Rightarrow> string option" where
  "find_first_str tag key_substrings = first_str key_substrings (iter_nbt_tree tag [])"

fun first_int :: "string list \<Rightarrow> (string \<times> string \<times> nbt) list \<Rightarrow> int option" where
  "first_int subs [] = None"
| "first_int subs ((path, k, v) # rest) =
     (if key_matches subs k then
        (case py_int (nbt_value v) of
           Some n \<Rightarrow> Some n
         | None \<Rightarrow> first_int subs rest)
      else first_int subs rest)"

definition find_first_int :: "nbt \<Rightarrow> string list \<Rightarrow> int option" where
  "find_first_int tag key_substrings = first_int key_substrings (iter_nbt_tree tag [])"

subsection \<open>The traversal as the specification words it\<close>

text \<open>
  A second traversal, written from the specification rather than from the source: depth
  first; at a compound node the children in the node's own order, at a sequence node the
  children by index \<open>0, 1, 2, \<dots>\<close> with the index written in decimal as key; each child is
  produced before its own descendants. It is compared with \<open>iter_nbt_tree\<close> below.
\<close>

function spec_nodes :: "nbt \<Rightarrow> (string \<times> nbt) list" where
  "spec_nodes (CompoundTag kvs) =
     concat (map (\<lambda>kv. (fst kv, snd kv) # spec_nodes (snd kv)) kvs)"
| "spec_nodes (ListTag vs) =
     concat (map (\<lambda>i. (str_nat i, vs ! i) # spec_nodes (vs ! i)) [0..<length vs])"
| "spec_nodes (IntTag n) = []"
| "spec_nodes (DoubleTag r) = []"
| "spec_nodes (StringTag s) = []"
| "spec_nodes (IntArrayTag xs) = []"
| "spec_nodes (DoubleArrayTag xs) = []"
  by pat_completeness auto
termination
proof (relation "measure size")
  show "wf (measure size)" by simp
next
  fix kvs :: "(string \<times> nbt) list" and kv
  assume "kv \<in> set kvs"
  then have "size (snd kv) \<le> size_list (\<lambda>x. Suc (size (snd x))) kvs"
    by (intro size_list_estimation' [where x = kv]) simp_all
  then show "(snd kv, CompoundTag kvs) \<in> measure size"
    by (simp add: size_prod_simp)
next
  fix vs :: "nbt list" and i
  assume "i \<in> set [0..<length vs]"
  then have "size (vs ! i) \<le> size_list size vs"
    by (intro size_list_estimation' [where x = "vs ! i"]) simp_all
  then show "(vs ! i, ListTag vs) \<in> measure size"
    by simp
qed

text \<open>A node the string search accepts: its key matches and its value is a string that
  is not empty once trimmed.\<close>

definition str_hit :: "string list \<Rightarrow> string \<times> nbt \<Rightarrow> bool" where
  "str_hit subs kv =
     (key_matches subs (fst kv) \<and>
      (case nbt_value (snd kv) of PyStr val \<Rightarrow> strip val \<noteq> [] | _ \<Rightarrow> False))"

text \<open>A node the integer search accepts: its key matches and \<^verbatim>\<open>int()\<close> succeeds on its
  value.\<close>

definition int_hit :: "string list \<Rightarrow> string \<times> nbt \<Rightarrow> bool" where
  "int_hit subs kv = (key_matches subs (fst kv) \<and> py_int (nbt_value (snd kv)) \<noteq> None)"

text \<open>The string value of a tag, untouched and trimmed.\<close>

definition raw_str :: "nbt \<Rightarrow> string" where
  "raw_str v = (case nbt_value v of PyStr val \<Rightarrow> val | _ \<Rightarrow> [])"

definition trimmed :: "nbt \<Rightarrow> string" where
  "trimmed v = strip (raw_str v)"

subsection \<open>Marker metadata: \<^verbatim>\<open>_parse_structure_block\<close>\<close>

text \<open>The dictionary \<^verbatim>\<open>{"name", "offset", "size"}\<close> the parser returns.\<close>

record structure_data =
  sd_name :: string
  sd_offset :: "int \<times> int \<times> int"
  sd_size :: "int \<times> int \<times> int"

definition name_keys :: "string list" where
  "name_keys = [''structurename'', ''structure_name'', ''name'', ''identifier'']"

definition offset_keys :: "string list \<times> string list \<times> string list" where
  "offset_keys =
     ([''xstructureoffset'', ''structureoffsetx'', ''offsetx'', ''posx''],
      [''ystructureoffset'', ''structureoffsety'', ''offsety'', ''posy''],
      [''zstructureoffset'', ''structureoffsetz'', ''offsetz'', ''posz''])"

definition size_keys :: "string list \<times> string list \<times> string list" where
  "size_keys =
     ([''xstructuresize'', ''structuresizex'', ''sizex'', ''size_x''],
      [''ystructuresize'', ''structuresizey'', ''sizey'', ''size_y''],
      [''zstructuresize'', ''structuresizez'', ''sizez'', ''size_z''])"

definition parse_structure_block :: "nbt \<Rightarrow> structure_data option" where
  "parse_structure_block tag =
     (case find_first_str tag name_keys of
        None \<Rightarrow> None
      | Some name \<Rightarrow>
          if name = [] then None
          else
            let ox = find_first_int tag (fst offset_keys);
                oy = find_first_int tag (fst (snd offset_keys));
                oz = find_first_int tag (snd (snd offset_keys));
                sx = find_first_int tag (fst size_keys);
                sy = find_first_int tag (fst (snd size_keys));
                sz = find_first_int tag (snd (snd size_keys))
            in if None \<in> set [ox, oy, oz, sx, sy, sz] then None
               else if the sx \<le> 0 \<or> the sy \<le> 0 \<or> the sz \<le> 0 then None
               else Some \<lparr>sd_name = name,
                          sd_offset = (the ox, the oy, the oz),
                          sd_size = (the sx, the sy, the sz)\<rparr>)"

subsection \<open>The world, as the exporter reads it\<close>

text \<open>
  Exceptions: the chunk loader's \<^verbatim>\<open>ChunkLoadError\<close>, which the exporter catches per chunk,
  and any other exception.
\<close>

datatype py_error = ChunkLoadError | PyException

type_synonym pos = "int \<times> int \<times> int"

text \<open>
  A block as the exporter reads it with \<^verbatim>\<open>getattr\<close>: each attribute may be absent. The
  properties are a dictionary from names to values already in their text form.
\<close>

record block =
  namespace :: "string option"
  base_name :: "string option"
  properties :: "(string \<times> string) list option"

record block_entity =
  be_nbt :: "nbt option"

record entity =
  ent_nbt :: "nbt option"

record chunk =
  block_entities :: "(pos \<times> block_entity) list option"
  entities :: "entity list option"

record level =
  get_block :: "pos \<Rightarrow> py_error + block"
  get_chunk :: "int \<times> int \<Rightarrow> py_error + chunk"

text \<open>A \<^verbatim>\<open>SelectionBox\<close>: the two corners as they are passed to it.\<close>

record selection_box =
  min_x :: int
  min_y :: int
  min_z :: int
  max_x :: int
  max_y :: int
  max_z :: int

definition in_box :: "selection_box \<Rightarrow> pos \<Rightarrow> bool" where
  "in_box b p =
     (case p of (x, y, z) \<Rightarrow>
        min_x b \<le> x \<and> x < max_x b \<and> min_y b \<le> y \<and> y < max_y b \<and>
        min_z b \<le> z \<and> z < max_z b)"

subsection \<open>Marker discovery: \<^verbatim>\<open>_is_structure_block\<close> and \<^verbatim>\<open>_iter_structure_blocks\<close>\<close>

definition is_structure_block :: "level \<Rightarrow> pos \<Rightarrow> bool" where
  "is_structure_block world p =
     (case get_block world p of
        Inl e \<Rightarrow> False
      | Inr blk \<Rightarrow> base_name blk = Some ''structure_block'')"

definition in_any_box :: "selection_box list \<Rightarrow> pos \<Rightarrow> bool" where
  "in_any_box boxes p = list_ex (\<lambda>b. in_box b p) boxes"

text \<open>The inner loop over one chunk's block entities, appending to \<open>out\<close>.\<close>

fun scan_block_entities ::
  "level \<Rightarrow> selection_box list \<Rightarrow> (pos \<times> block_entity) list \<Rightarrow>
   (pos \<times> nbt \<times> structure_data option) list \<Rightarrow> (pos \<times> nbt \<times> structure_data option) list"
where
  "scan_block_entities world boxes [] out = out"
| "scan_block_entities world boxes ((p, be) # bes) out =
     (if \<not> in_any_box boxes p then scan_block_entities world boxes bes out
      else if \<not> is_structure_block world p then scan_block_entities world boxes bes out
      else
        (case be_nbt be of
           None \<Rightarrow> scan_block_entities world boxes bes out
         | Some tag \<Rightarrow>
             scan_block_entities world boxes bes (out @ [(p, tag, parse_structure_block tag)])))"

text \<open>
  The outer loop over the selection's chunk coordinates, which come from the selection
  (\<^verbatim>\<open>chunk_locations()\<close>) and are an argument here. A chunk that fails to load is skipped;
  any other exception leaves the function.
\<close>

fun iter_structure_blocks_from ::
  "level \<Rightarrow> selection_box list \<Rightarrow> (int \<times> int) list \<Rightarrow>
   (pos \<times> nbt \<times> structure_data option) list \<Rightarrow>
   py_error + (pos \<times> nbt \<times> structure_data option) list"
where
  "iter_structure_blocks_from world boxes [] out = Inr out"
| "iter_structure_blocks_from world boxes (c # cs) out =
     (case get_chunk world c of
        Inl ChunkLoadError \<Rightarrow> iter_structure_blocks_from world boxes cs out
      | Inl PyException \<Rightarrow> Inl PyException
      | Inr ch \<Rightarrow>
          (let bes = (case block_entities ch of None \<Rightarrow> [] | Some d \<Rightarrow> d) in
             iter_structure_blocks_from world boxes cs
               (scan_block_entities world boxes bes out)))"

definition iter_structure_blocks ::
  "level \<Rightarrow> selection_box list \<Rightarrow> (int \<times> int) list \<Rightarrow>
   py_error + (pos \<times> nbt \<times> structure_data option) list"
where
  "iter_structure_blocks world boxes chunk_locations =
     iter_structure_blocks_from world boxes chunk_locations []"

text \<open>The records the entry point keeps: those whose metadata parsed.\<close>

fun parsed_of ::
  "(pos \<times> nbt \<times> structure_data option) list \<Rightarrow> (pos \<times> structure_data) list" where
  "parsed_of [] = []"
| "parsed_of ((p, tag, d) # found) =
     (case d of None \<Rightarrow> parsed_of found | Some data \<Rightarrow> (p, data) # parsed_of found)"

subsection \<open>Palette keys and states: \<^verbatim>\<open>_state_key\<close>, \<^verbatim>\<open>_universal_block_to_java_state\<close>\<close>

type_synonym state_key = "string \<times> (string \<times> string) list"

definition block_name :: "block \<Rightarrow> string" where
  "block_name blk =
     (let ns = (case namespace blk of None \<Rightarrow> ''minecraft'' | Some n \<Rightarrow> n);
          bn = (case base_name blk of None \<Rightarrow> ''air'' | Some n \<Rightarrow> n)
      in ns @ '':'' @ bn)"

definition block_props :: "block \<Rightarrow> (string \<times> string) list" where
  "block_props blk = (case properties blk of None \<Rightarrow> [] | Some d \<Rightarrow> d)"

definition state_key :: "block \<Rightarrow> state_key" where
  "state_key blk = (block_name blk, sort (block_props blk))"

definition universal_block_to_java_state :: "block \<Rightarrow> nbt" where
  "universal_block_to_java_state blk =
     (let name = block_name blk; props = block_props blk in
        if props \<noteq> [] then
          CompoundTag [(''Name'', StringTag name),
                       (''Properties'', CompoundTag (map (\<lambda>(k, v). (k, StringTag v)) props))]
        else CompoundTag [(''Name'', StringTag name)])"

subsection \<open>The palette builder: \<^verbatim>\<open>get_state_index\<close>\<close>

text \<open>The two variables the closure updates: the list \<^verbatim>\<open>palette\<close> and the dictionary
  \<^verbatim>\<open>palette_index\<close>.\<close>

record palette_state =
  palette :: "nbt list"
  palette_index :: "state_key \<rightharpoonup> nat"

definition empty_palette :: palette_state where
  "empty_palette = \<lparr>palette = [], palette_index = Map.empty\<rparr>"

definition get_state_index :: "block \<Rightarrow> palette_state \<Rightarrow> nat \<times> palette_state" where
  "get_state_index blk st =
     (let key = state_key blk in
        case palette_index st key of
          Some i \<Rightarrow> (i, st)
        | None \<Rightarrow>
            (let idx = length (palette st) in
               (idx, \<lparr>palette = palette st @ [universal_block_to_java_state blk],
                      palette_index = (palette_index st)(key \<mapsto> idx)\<rparr>)))"

text \<open>A sequence of states pushed through the builder, one after the other: the indices
  returned, and the builder afterwards.\<close>

fun push_states :: "block list \<Rightarrow> palette_state \<Rightarrow> nat list \<times> palette_state" where
  "push_states [] st = ([], st)"
| "push_states (blk # blks) st =
     (let (i, st') = get_state_index blk st;
          (is, st'') = push_states blks st'
      in (i # is, st''))"

text \<open>The blocks that bring a key not seen before, in the order they come; \<open>seen\<close> holds
  the keys met so far.\<close>

fun first_seen :: "state_key list \<Rightarrow> block list \<Rightarrow> block list" where
  "first_seen seen [] = []"
| "first_seen seen (blk # blks) =
     (if state_key blk \<in> set seen then first_seen seen blks
      else blk # first_seen (seen @ [state_key blk]) blks)"

text \<open>The position of the first occurrence of an element in a list.\<close>

fun index_of :: "'a list \<Rightarrow> 'a \<Rightarrow> nat" where
  "index_of [] a = 0"
| "index_of (x # xs) a = (if x = a then 0 else Suc (index_of xs a))"

subsection \<open>Block entities of a box: \<^verbatim>\<open>_collect_block_entities_in_box\<close>\<close>

fun collect_in_chunk ::
  "selection_box \<Rightarrow> (pos \<times> block_entity) list \<Rightarrow> (pos \<rightharpoonup> block_entity) \<Rightarrow>
   (pos \<rightharpoonup> block_entity)"
where
  "collect_in_chunk box [] out = out"
| "collect_in_chunk box ((p, be) # bes) out =
     (if in_box box p then collect_in_chunk box bes (out(p \<mapsto> be))
      else collect_in_chunk box bes out)"

fun collect_block_entities_from ::
  "level \<Rightarrow> selection_box \<Rightarrow> (int \<times> int) list \<Rightarrow> (pos \<rightharpoonup> block_entity) \<Rightarrow>
   py_error + (pos \<rightharpoonup> block_entity)"
where
  "collect_block_entities_from world box [] out = Inr out"
| "collect_block_entities_from world box (c # cs) out =
     (case get_chunk world c of
        Inl ChunkLoadError \<Rightarrow> collect_block_entities_from world box cs out
      | Inl PyException \<Rightarrow> Inl PyException
      | Inr ch \<Rightarrow>
          (let bes = (case block_entities ch of None \<Rightarrow> [] | Some d \<Rightarrow> d) in
             collect_block_entities_from world box cs (collect_in_chunk box bes out)))"

definition collect_block_entities_in_box ::
  "level \<Rightarrow> (int \<times> int) list \<Rightarrow> selection_box \<Rightarrow> py_error + (pos \<rightharpoonup> block_entity)"
where
  "collect_block_entities_in_box world chunk_locations box =
     collect_block_entities_from world box chunk_locations Map.empty"

subsection \<open>The voxel scan of \<^verbatim>\<open>_export_java_structure_nbt\<close>\<close>

text \<open>\<^verbatim>\<open>range(a, b)\<close>.\<close>

definition py_range :: "int \<Rightarrow> int \<Rightarrow> int list" where
  "py_range a b = [a..b - 1]"

text \<open>The positions the three nested loops visit, in the order they visit them: \<open>y\<close>
  outermost, then \<open>z\<close>, then \<open>x\<close>.\<close>

definition scan_order :: "selection_box \<Rightarrow> pos list" where
  "scan_order box =
     concat (map (\<lambda>y. concat (map (\<lambda>z. map (\<lambda>x. (x, y, z))
       (py_range (min_x box) (max_x box)))
       (py_range (min_z box) (max_z box))))
       (py_range (min_y box) (max_y box)))"

text \<open>The test that skips a voxel: \<^verbatim>\<open>getattr(blk, "base_name", "air") == "air"\<close>.\<close>

definition is_air :: "block \<Rightarrow> bool" where
  "is_air blk = ((case base_name blk of None \<Rightarrow> ''air'' | Some n \<Rightarrow> n) = ''air'')"

text \<open>The copy of a block entity's tag without its \<open>x\<close>, \<open>y\<close>, \<open>z\<close> entries; a tag that
  is no compound is attached as it is.\<close>

definition strip_xyz :: "nbt \<Rightarrow> nbt" where
  "strip_xyz tag =
     (case tag of
        CompoundTag kvs \<Rightarrow> CompoundTag (filter (\<lambda>(k, v). k \<notin> {''x'', ''y'', ''z''}) kvs)
      | _ \<Rightarrow> tag)"

definition rel_pos :: "selection_box \<Rightarrow> pos \<Rightarrow> int list" where
  "rel_pos box p = (case p of (x, y, z) \<Rightarrow> [x - min_x box, y - min_y box, z - min_z box])"

definition block_entry :: "selection_box \<Rightarrow> (pos \<rightharpoonup> block_entity) \<Rightarrow> pos \<Rightarrow> nat \<Rightarrow> nbt" where
  "block_entry box be_map p state_idx =
     (let entry = [(''pos'', IntArrayTag (rel_pos box p)), (''state'', IntTag (int state_idx))] in
        case be_map p of
          None \<Rightarrow> CompoundTag entry
        | Some be \<Rightarrow>
            (case be_nbt be of
               None \<Rightarrow> CompoundTag entry
             | Some tag \<Rightarrow> CompoundTag (entry @ [(''nbt'', strip_xyz tag)])))"

text \<open>The loop body over the scan positions, with the builder and \<^verbatim>\<open>blocks_list\<close> as
  state. An exception of \<^verbatim>\<open>get_block\<close> leaves the function.\<close>

fun scan_voxels ::
  "level \<Rightarrow> selection_box \<Rightarrow> (pos \<rightharpoonup> block_entity) \<Rightarrow> bool \<Rightarrow> pos list \<Rightarrow>
   palette_state \<times> nbt list \<Rightarrow> py_error + (palette_state \<times> nbt list)"
where
  "scan_voxels world box be_map remove_blocks [] acc = Inr acc"
| "scan_voxels world box be_map remove_blocks (p # ps) (st, blocks_list) =
     (if remove_blocks then scan_voxels world box be_map remove_blocks ps (st, blocks_list)
      else
        (case get_block world p of
           Inl e \<Rightarrow> Inl e
         | Inr blk \<Rightarrow>
             if is_air blk then scan_voxels world box be_map remove_blocks ps (st, blocks_list)
             else
               (let (state_idx, st') = get_state_index blk st in
                  scan_voxels world box be_map remove_blocks ps
                    (st', blocks_list @ [block_entry box be_map p state_idx]))))"

subsection \<open>Free-floating objects in \<^verbatim>\<open>_export_java_structure_nbt\<close>\<close>

text \<open>
  What \<^verbatim>\<open>float()\<close> can return: a finite float, or one of the infinities and NaN.
\<close>

datatype float_value = Finite rat | NotFinite

text \<open>
  Rounding a rational to the nearest double, ties to the even significand: the unit in the
  last place is \<open>2\<close> to the power \<open>e - 52\<close> where \<open>2 ^ e\<close> is the power of two at or below the
  magnitude, and \<open>2 ^ -1074\<close> in the subnormal range; a magnitude that rounds to \<open>2 ^ 1024\<close>
  overflows.
\<close>

function bit_length :: "int \<Rightarrow> int" where
  "bit_length n = (if n \<le> 0 then 0 else 1 + bit_length (n div 2))"
  by pat_completeness auto
termination
  by (relation "measure nat") auto

declare bit_length.simps [simp del]

definition ilog2 :: "rat \<Rightarrow> int" where
  "ilog2 m =
     (case quotient_of m of (a, b) \<Rightarrow>
        (let d = bit_length a - bit_length b in
           if power_int 2 d \<le> m then d else d - 1))"

definition round_half_even :: "rat \<Rightarrow> int" where
  "round_half_even q =
     (let f = \<lfloor>q\<rfloor>; d = q - of_int f in
        if d < 1 / 2 then f
        else if 1 / 2 < d then f + 1
        else if even f then f else f + 1)"

definition round_double :: "rat \<Rightarrow> float_value" where
  "round_double v =
     (if v = 0 then Finite 0
      else
        (let m = \<bar>v\<bar>;
             e = ilog2 m;
             q = (if e < - 1022 then - 1074 else e - 52);
             r = of_int (round_half_even (m / power_int 2 q)) * power_int 2 q
         in if 2 ^ 1024 \<le> r then NotFinite
            else Finite (if v < 0 then - r else r)))"

text \<open>
  \<^verbatim>\<open>float(s)\<close> of a string. Whitespace is skipped at both ends as for \<^verbatim>\<open>int()\<close>. An
  underscore needs a digit on each side. After an optional sign comes \<open>inf\<close>, \<open>infinity\<close>
  or \<open>nan\<close> in any case, or a decimal number: digits with an optional point, at least one
  digit before or after it, and an optional exponent \<open>e\<close> or \<open>E\<close> with an optional sign
  and at least one digit. The value is rounded to the nearest double; one too large is an
  infinity. Anything else raises \<^verbatim>\<open>ValueError\<close>.
\<close>

fun underscores_from :: "char \<Rightarrow> string \<Rightarrow> bool" where
  "underscores_from prev [] = (prev \<noteq> CHR ''_'')"
| "underscores_from prev (c # s) =
     (if c = CHR ''_'' then is_digit prev \<and> underscores_from c s
      else if prev = CHR ''_'' then is_digit c \<and> underscores_from c s
      else underscores_from c s)"

definition underscores_ok :: "string \<Rightarrow> bool" where
  "underscores_ok s = underscores_from (CHR 0x00) s"

definition all_digits :: "string \<Rightarrow> bool" where
  "all_digits s = (s \<noteq> [] \<and> list_all is_digit s)"

definition parse_exponent :: "string \<Rightarrow> int option" where
  "parse_exponent r =
     (case r of
        [] \<Rightarrow> Some 0
      | c # r' \<Rightarrow>
          if c = CHR ''e'' \<or> c = CHR ''E'' then
            (case r' of
               [] \<Rightarrow> None
             | d # r'' \<Rightarrow>
                 if d = CHR ''-'' then (if all_digits r'' then Some (- digits_value r'') else None)
                 else if d = CHR ''+'' then (if all_digits r'' then Some (digits_value r'') else None)
                 else if all_digits (d # r'') then Some (digits_value (d # r'')) else None)
          else None)"

definition parse_decimal :: "string \<Rightarrow> rat option" where
  "parse_decimal body =
     (let ip = takeWhile is_digit body;
          r1 = dropWhile is_digit body;
          fp = (case r1 of
                  [] \<Rightarrow> []
                | c # r \<Rightarrow> if c = CHR ''.'' then takeWhile is_digit r else []);
          r2 = (case r1 of
                  [] \<Rightarrow> []
                | c # r \<Rightarrow> if c = CHR ''.'' then dropWhile is_digit r else r1)
      in if ip = [] \<and> fp = [] then None
         else
           (case parse_exponent r2 of
              None \<Rightarrow> None
            | Some ex \<Rightarrow>
                Some (of_int (digits_value (ip @ fp)) * power_int 10 (ex - int (length fp)))))"

definition float_of_str :: "string \<Rightarrow> float_value option" where
  "float_of_str s =
     (let t = c_strip s in
        if t = [] \<or> \<not> underscores_ok t then None
        else
          (let u = filter (\<lambda>c. c \<noteq> CHR ''_'') t;
               neg = (case u of [] \<Rightarrow> False | c # r \<Rightarrow> c = CHR ''-'');
               body = (case u of
                         [] \<Rightarrow> []
                       | c # r \<Rightarrow> if c = CHR ''-'' \<or> c = CHR ''+'' then r else u)
           in if lower body = ''inf'' \<or> lower body = ''infinity'' \<or> lower body = ''nan''
              then Some NotFinite
              else
                (case parse_decimal body of
                   None \<Rightarrow> None
                 | Some v \<Rightarrow> Some (round_double (if neg then - v else v)))))"

text \<open>
  \<^verbatim>\<open>float(x)\<close> of a tag's value. A float yields itself; an integer is rounded to the nearest
  double, and raises \<^verbatim>\<open>OverflowError\<close> when that is none; text is parsed; a container
  raises.
\<close>

fun py_float :: "py_value \<Rightarrow> float_value option" where
  "py_float (PyFloat r) = Some (Finite r)"
| "py_float (PyInt n) =
     (case round_double (of_int n) of NotFinite \<Rightarrow> None | Finite r \<Rightarrow> Some (Finite r))"
| "py_float (PyStr s) = float_of_str s"
| "py_float PyContainer = None"

text \<open>The guarded block that reads \<^verbatim>\<open>Pos\<close>: any failure skips the entity.\<close>

definition read_pos :: "nbt \<Rightarrow> (float_value \<times> float_value \<times> float_value) option" where
  "read_pos ent_tag =
     (case ent_tag of
        CompoundTag kvs \<Rightarrow>
          (case map_of kvs ''Pos'' of
             Some (ListTag [a, b, c]) \<Rightarrow>
               (case py_float (nbt_value a) of
                  None \<Rightarrow> None
                | Some ex \<Rightarrow>
                    (case py_float (nbt_value b) of
                       None \<Rightarrow> None
                     | Some ey \<Rightarrow>
                         (case py_float (nbt_value c) of
                            None \<Rightarrow> None
                          | Some ez \<Rightarrow> Some (ex, ey, ez))))
           | _ \<Rightarrow> None)
      | _ \<Rightarrow> None)"

text \<open>
  The test of line 432 on a position read. A chain \<open>min \<le> e < max\<close> is false when \<open>e\<close> is
  an infinity or NaN, so a position with such a component is never inside; \<open>finite_pos\<close>
  gives the three rationals of a position whose components are all finite.
\<close>

definition finite_pos ::
  "float_value \<times> float_value \<times> float_value \<Rightarrow> (rat \<times> rat \<times> rat) option" where
  "finite_pos f =
     (case f of
        (Finite ex, Finite ey, Finite ez) \<Rightarrow> Some (ex, ey, ez)
      | _ \<Rightarrow> None)"

definition float_in_box :: "selection_box \<Rightarrow> rat \<times> rat \<times> rat \<Rightarrow> bool" where
  "float_in_box box e =
     (case e of (ex, ey, ez) \<Rightarrow>
        of_int (min_x box) \<le> ex \<and> ex < of_int (max_x box) \<and>
        of_int (min_y box) \<le> ey \<and> ey < of_int (max_y box) \<and>
        of_int (min_z box) \<le> ez \<and> ez < of_int (max_z box))"

text \<open>The two relative positions of lines 435 and 436: the float position minus the
  origin, and \<^verbatim>\<open>int()\<close> of the float position minus the origin.\<close>

definition rel_float :: "selection_box \<Rightarrow> rat \<times> rat \<times> rat \<Rightarrow> rat list" where
  "rel_float box e =
     (case e of (ex, ey, ez) \<Rightarrow>
        [ex - of_int (min_x box), ey - of_int (min_y box), ez - of_int (min_z box)])"

definition rel_block :: "selection_box \<Rightarrow> rat \<times> rat \<times> rat \<Rightarrow> int list" where
  "rel_block box e =
     (case e of (ex, ey, ez) \<Rightarrow>
        [trunc ex - min_x box, trunc ey - min_y box, trunc ez - min_z box])"

text \<open>The entry one entity contributes, or \<open>None\<close> when the loop moves on without one.\<close>

definition entity_entry :: "selection_box \<Rightarrow> entity \<Rightarrow> nbt option" where
  "entity_entry box ent =
     (case ent_nbt ent of
        None \<Rightarrow> None
      | Some ent_tag \<Rightarrow>
          (case read_pos ent_tag of
             None \<Rightarrow> None
           | Some f \<Rightarrow>
               (case finite_pos f of
                  None \<Rightarrow> None
                | Some e \<Rightarrow>
                    if \<not> float_in_box box e then None
                    else Some (CompoundTag
                           [(''pos'', DoubleArrayTag (rel_float box e)),
                            (''blockPos'', IntArrayTag (rel_block box e)),
                            (''nbt'', ent_tag)]))))"

fun entities_in_chunk :: "selection_box \<Rightarrow> entity list \<Rightarrow> nbt list \<Rightarrow> nbt list" where
  "entities_in_chunk box [] entities_list = entities_list"
| "entities_in_chunk box (ent # ents) entities_list =
     (case entity_entry box ent of
        None \<Rightarrow> entities_in_chunk box ents entities_list
      | Some entry \<Rightarrow> entities_in_chunk box ents (entities_list @ [entry]))"

fun collect_entities_from ::
  "level \<Rightarrow> selection_box \<Rightarrow> (int \<times> int) list \<Rightarrow> nbt list \<Rightarrow> py_error + nbt list"
where
  "collect_entities_from world box [] entities_list = Inr entities_list"
| "collect_entities_from world box (c # cs) entities_list =
     (case get_chunk world c of
        Inl ChunkLoadError \<Rightarrow> collect_entities_from world box cs entities_list
      | Inl PyException \<Rightarrow> Inl PyException
      | Inr ch \<Rightarrow>
          (case entities ch of
             None \<Rightarrow> collect_entities_from world box cs entities_list
           | Some ents \<Rightarrow>
               collect_entities_from world box cs (entities_in_chunk box ents entities_list)))"

subsection \<open>The document: \<^verbatim>\<open>_export_java_structure_nbt\<close>\<close>

text \<open>
  The result is the root compound handed to \<^verbatim>\<open>nbt.save_to\<close>, or the exception that left
  the function. The chunk coordinates of the box (\<^verbatim>\<open>SelectionGroup(box).chunk_locations()\<close>)
  are an argument. Creating the directory and writing the file are not part of the model.
\<close>

definition export_java_structure_nbt ::
  "level \<Rightarrow> (int \<times> int) list \<Rightarrow> selection_box \<Rightarrow> bool \<Rightarrow> bool \<Rightarrow> py_error + nbt"
where
  "export_java_structure_nbt world chunk_locations box include_entities remove_blocks =
     (let sx = max_x box - min_x box;
          sy = max_y box - min_y box;
          sz = max_z box - min_z box
      in
        case collect_block_entities_in_box world chunk_locations box of
          Inl e \<Rightarrow> Inl e
        | Inr be_map \<Rightarrow>
            (case scan_voxels world box be_map remove_blocks (scan_order box)
                    (empty_palette, []) of
               Inl e \<Rightarrow> Inl e
             | Inr (st, blocks_list) \<Rightarrow>
                 (case (if include_entities
                        then collect_entities_from world box chunk_locations []
                        else Inr []) of
                    Inl e \<Rightarrow> Inl e
                  | Inr entities_list \<Rightarrow>
                      Inr (CompoundTag
                        [(''size'', IntArrayTag [sx, sy, sz]),
                         (''palette'', ListTag (palette st)),
                         (''blocks'', ListTag blocks_list),
                         (''entities'', ListTag entities_list)]))))"

text \<open>Reading a field of the root.\<close>

definition doc_field :: "string \<Rightarrow> nbt \<Rightarrow> nbt option" where
  "doc_field k doc = (case doc of CompoundTag kvs \<Rightarrow> map_of kvs k | _ \<Rightarrow> None)"

subsection \<open>The entry point: \<^verbatim>\<open>export_structures_from_structure_blocks\<close>\<close>

text \<open>Lines 496 to 507: the box of a parsed marker.\<close>

definition target_box :: "pos \<Rightarrow> structure_data \<Rightarrow> selection_box" where
  "target_box p data =
     (case p of (bx, by, bz) \<Rightarrow>
      case sd_offset data of (ox, oy, oz) \<Rightarrow>
      case sd_size data of (sx, sy, sz) \<Rightarrow>
        (let mnx = bx + ox; mny = by + oy; mnz = bz + oz;
             mxx = mnx + sx; mxy = mny + sy; mxz = mnz + sz
         in \<lparr>min_x = mnx, min_y = mny, min_z = mnz,
             max_x = mxx, max_y = mxy, max_z = mxz\<rparr>))"

text \<open>
  The loop over the parsed markers. What runs inside \<^verbatim>\<open>try\<close> (naming the file and one of
  the two exporters) reads and writes the file system and is the argument \<open>attempt\<close>: from
  the state of the outside world, the marker's name and its box it gives either the
  exception or the path written, and the new state. Each turn of the loop ends with
  \<^verbatim>\<open>yield i / total\<close>; the result lists, turn by turn, what the attempt gave and the
  fraction yielded.
\<close>

fun export_loop ::
  "('w \<Rightarrow> string \<Rightarrow> selection_box \<Rightarrow> (py_error + string) \<times> 'w) \<Rightarrow> nat \<Rightarrow> nat \<Rightarrow>
   (pos \<times> structure_data) list \<Rightarrow> 'w \<Rightarrow> ((py_error + string) \<times> rat) list"
where
  "export_loop attempt total' i [] w = []"
| "export_loop attempt total' i ((p, data) # rest) w =
     (let name = sd_name data;
          box = target_box p data;
          (res, w') = attempt w name box
      in (res, of_nat i / of_nat total') # export_loop attempt total' (Suc i) rest w')"

definition export_structures ::
  "('w \<Rightarrow> string \<Rightarrow> selection_box \<Rightarrow> (py_error + string) \<times> 'w) \<Rightarrow>
   (pos \<times> structure_data) list \<Rightarrow> 'w \<Rightarrow> ((py_error + string) \<times> rat) list"
where
  "export_structures attempt parsed w =
     (if parsed = [] then [] else export_loop attempt (length parsed) 1 parsed w)"

subsection \<open>Words of the specification about the palette and the scan\<close>

text \<open>The keys of a sequence of blocks in first-seen order, without repetition.\<close>

definition first_seen_keys :: "block list \<Rightarrow> state_key list" where
  "first_seen_keys blks = map state_key (first_seen [] blks)"

text \<open>The dictionary that sends each key of a list to its position in the list.\<close>

definition index_map :: "'a list \<Rightarrow> 'a \<rightharpoonup> nat" where
  "index_map ks = (\<lambda>k. if k \<in> set ks then Some (index_of ks k) else None)"

text \<open>Y-major, then Z, then X: the position \<open>p\<close> comes before \<open>q\<close>.\<close>

definition scan_before :: "pos \<Rightarrow> pos \<Rightarrow> bool" where
  "scan_before p q =
     (case p of (x, y, z) \<Rightarrow> case q of (x', y', z') \<Rightarrow>
        y < y' \<or> (y = y' \<and> (z < z' \<or> (z = z' \<and> x < x'))))"

text \<open>The positions of a list whose block passes the empty test, \<open>blk_at\<close> giving the
  block at each position.\<close>

definition solid_at :: "(pos \<Rightarrow> block) \<Rightarrow> pos list \<Rightarrow> pos list" where
  "solid_at blk_at ps = filter (\<lambda>p. \<not> is_air (blk_at p)) ps"

section \<open>Concrete inputs\<close>

text \<open>A world that holds the same block everywhere and has no loadable chunk.\<close>

definition uniform_world :: "block \<Rightarrow> level" where
  "uniform_world blk = \<lparr>get_block = (\<lambda>p. Inr blk), get_chunk = (\<lambda>c. Inl ChunkLoadError)\<rparr>"

definition vanilla_marker :: block where
  "vanilla_marker =
     \<lparr>namespace = Some ''minecraft'', base_name = Some ''structure_block'', properties = None\<rparr>"

definition foreign_marker :: block where
  "foreign_marker =
     \<lparr>namespace = Some ''mymod'', base_name = Some ''structure_block'', properties = None\<rparr>"

definition foreign_air :: block where
  "foreign_air =
     \<lparr>namespace = Some ''mymod'', base_name = Some ''air'',
      properties = Some [(''level'', ''3'')]\<rparr>"

definition stone :: block where
  "stone = \<lparr>namespace = Some ''minecraft'', base_name = Some ''stone'', properties = None\<rparr>"

text \<open>The metadata of a marker as one format revision writes it.\<close>

definition marker_tag :: nbt where
  "marker_tag = CompoundTag
     [(''structureName'', StringTag ''mystructure:house''),
      (''xStructureOffset'', IntTag 0), (''yStructureOffset'', IntTag 1),
      (''zStructureOffset'', IntTag 0),
      (''xStructureSize'', IntTag 3), (''yStructureSize'', IntTag 2),
      (''zStructureSize'', IntTag 3)]"

definition unit_box :: selection_box where
  "unit_box = \<lparr>min_x = 0, min_y = 0, min_z = 0, max_x = 1, max_y = 1, max_z = 1\<rparr>"

text \<open>The unit box west of the origin, and an object in its middle.\<close>

definition unit_box_west :: selection_box where
  "unit_box_west = \<lparr>min_x = - 1, min_y = 0, min_z = 0, max_x = 0, max_y = 1, max_z = 1\<rparr>"

definition west_entity_tag :: nbt where
  "west_entity_tag =
     CompoundTag [(''Pos'', ListTag [DoubleTag (- 1 / 2), DoubleTag 0, DoubleTag (1 / 2)])]"

text \<open>A name stored with blanks around it.\<close>

definition padded_tag :: nbt where
  "padded_tag = CompoundTag [(''name'', StringTag '' house '')]"

text \<open>Metadata whose height is zero.\<close>

definition flat_tag :: nbt where
  "flat_tag = CompoundTag
     [(''structureName'', StringTag ''flat''),
      (''xStructureOffset'', IntTag 0), (''yStructureOffset'', IntTag 1),
      (''zStructureOffset'', IntTag 0),
      (''xStructureSize'', IntTag 3), (''yStructureSize'', IntTag 0),
      (''zStructureSize'', IntTag 3)]"

text \<open>An attempt that raises on the marker named \<open>flat\<close> and writes a file for any
  other; the state counts the files written.\<close>

definition flaky_attempt ::
  "nat \<Rightarrow> string \<Rightarrow> selection_box \<Rightarrow> (py_error + string) \<times> nat" where
  "flaky_attempt n name box =
     (if name = ''flat'' then (Inl PyException, n) else (Inr (name @ ''.nbt''), Suc n))"

definition two_markers :: "(pos \<times> structure_data) list" where
  "two_markers =
     [((0, 0, 0), \<lparr>sd_name = ''flat'', sd_offset = (0, 1, 0), sd_size = (3, 1, 3)\<rparr>),
      ((8, 0, 0), \<lparr>sd_name = ''house'', sd_offset = (0, 1, 0), sd_size = (3, 2, 3)\<rparr>)]"

text \<open>The same log twice, its properties listed in two orders.\<close>

definition oak_log :: block where
  "oak_log = \<lparr>namespace = Some ''minecraft'', base_name = Some ''oak_log'',
               properties = Some [(''axis'', ''y''), (''stripped'', ''false'')]\<rparr>"

definition oak_log_reordered :: block where
  "oak_log_reordered = \<lparr>namespace = Some ''minecraft'', base_name = Some ''oak_log'',
               properties = Some [(''stripped'', ''false''), (''axis'', ''y'')]\<rparr>"

text \<open>The builder after stone has been pushed through the empty one.\<close>

definition stone_palette :: palette_state where
  "stone_palette = snd (get_state_index stone empty_palette)"

definition dirt :: block where
  "dirt = \<lparr>namespace = Some ''minecraft'', base_name = Some ''dirt'', properties = None\<rparr>"

text \<open>A world of stone with one block of dirt and one of foreign air, no chunk of which
  loads, and a box of two by two by one over it.\<close>

definition patch_block :: "pos \<Rightarrow> block" where
  "patch_block p =
     (if p = (0, 0, 0) then foreign_air else if p = (0, 1, 0) then dirt else stone)"

definition patch_world :: level where
  "patch_world = \<lparr>get_block = (\<lambda>p. Inr (patch_block p)),
                   get_chunk = (\<lambda>c. Inl ChunkLoadError)\<rparr>"

definition patch_box :: selection_box where
  "patch_box = \<lparr>min_x = 0, min_y = 0, min_z = 0, max_x = 2, max_y = 2, max_z = 1\<rparr>"

text \<open>Metadata in which the first two values under a matching key are no integers for
  \<^verbatim>\<open>int()\<close>: text that begins with the separator \<open>0x1c\<close>, and text with a decimal point.\<close>

definition skewed_tag :: nbt where
  "skewed_tag = CompoundTag
     [(''meta'', CompoundTag [(''sizeX'', StringTag (CHR 0x1C # ''5''))]),
      (''SIZEX'', StringTag ''7.5''),
      (''sizex'', DoubleTag (15 / 2)),
      (''Name'', StringTag '' house '')]"

section \<open>Properties\<close>

subsection \<open>The target box of a marker\<close>

text \<open>
  Claim C4. A marker at position \<open>p\<close> with offset \<open>o\<close> and size \<open>s\<close> gets the box with
  corners \<open>p + o\<close> and \<open>p + o + s\<close>; a point lies in it exactly when it is at least the
  first corner and strictly below the second on every axis. The marker at \<open>(10, 64, 10)\<close>
  with offset \<open>(0, 1, 0)\<close> and size \<open>(3, 2, 3)\<close> gets the box from \<open>(10, 65, 10)\<close> to
  \<open>(13, 67, 13)\<close>.
\<close>

theorem target_box_half_open:
  "target_box (bx, by, bz) \<lparr>sd_name = n, sd_offset = (ox, oy, oz), sd_size = (sx, sy, sz)\<rparr> =
     \<lparr>min_x = bx + ox, min_y = by + oy, min_z = bz + oz,
      max_x = bx + ox + sx, max_y = by + oy + sy, max_z = bz + oz + sz\<rparr>
   \<and> in_box (target_box (bx, by, bz)
         \<lparr>sd_name = n, sd_offset = (ox, oy, oz), sd_size = (sx, sy, sz)\<rparr>) (x, y, z) =
     (bx + ox \<le> x \<and> x < bx + ox + sx \<and> by + oy \<le> y \<and> y < by + oy + sy \<and>
      bz + oz \<le> z \<and> z < bz + oz + sz)
   \<and> target_box (10, 64, 10) \<lparr>sd_name = n, sd_offset = (0, 1, 0), sd_size = (3, 2, 3)\<rparr> =
     \<lparr>min_x = 10, min_y = 65, min_z = 10, max_x = 13, max_y = 67, max_z = 13\<rparr>"
  by (simp add: target_box_def in_box_def Let_def)

subsection \<open>Marker discovery\<close>

lemma scan_block_entities_acc:
  "scan_block_entities world boxes bes out = out @ scan_block_entities world boxes bes []"
proof (induction bes arbitrary: out)
  case Nil
  then show ?case by simp
next
  case (Cons a bes)
  obtain p be where a: "a = (p, be)" by (cases a)
  show ?case
    using Cons.IH [of out]
      Cons.IH [of "out @ [(p, the (be_nbt be), parse_structure_block (the (be_nbt be)))]"]
      Cons.IH [of "[(p, the (be_nbt be), parse_structure_block (the (be_nbt be)))]"]
    by (auto simp: a split: option.splits)
qed

lemma scan_block_entities_member:
  "(p, tag, d) \<in> set (scan_block_entities world boxes bes []) \<Longrightarrow>
     in_any_box boxes p \<and> is_structure_block world p"
proof (induction bes)
  case Nil
  then show ?case by simp
next
  case (Cons a bes)
  obtain q be where a: "a = (q, be)" by (cases a)
  show ?case
    using Cons scan_block_entities_acc [of world boxes bes
        "[(q, the (be_nbt be), parse_structure_block (the (be_nbt be)))]"]
    by (auto simp: a split: if_splits option.splits)
qed

text \<open>
  Claim C2, as the code has it. A block entity met during discovery becomes a candidate
  only if reading the block at its position succeeds and that block's base name is
  \<open>structure_block\<close>; the test \<open>is_structure_block\<close> is exactly that, and the namespace of
  the block plays no part in it.
\<close>

theorem marker_by_base_name:
  "((p, tag, d) \<in> set (scan_block_entities world boxes bes []) \<longrightarrow>
      (\<exists>blk. get_block world p = Inr blk \<and> base_name blk = Some ''structure_block''))
   \<and> (is_structure_block world p \<longleftrightarrow>
      (\<exists>blk. get_block world p = Inr blk \<and> base_name blk = Some ''structure_block''))"
proof -
  have b: "is_structure_block world p \<longleftrightarrow>
      (\<exists>blk. get_block world p = Inr blk \<and> base_name blk = Some ''structure_block'')"
    by (auto simp: is_structure_block_def split: sum.splits)
  show ?thesis using b scan_block_entities_member [of p tag d world boxes bes] by blast
qed

text \<open>The theorem at a marker of a foreign namespace inside the unit box.\<close>

theorem marker_by_base_name_witness:
  "((0, 0, 0), marker_tag, parse_structure_block marker_tag)
     \<in> set (scan_block_entities (uniform_world foreign_marker) [unit_box]
              [((0, 0, 0), \<lparr>be_nbt = Some marker_tag\<rparr>)] [])
   \<and> (\<exists>blk. get_block (uniform_world foreign_marker) (0, 0, 0) = Inr blk \<and>
        base_name blk = Some ''structure_block'')"
  using marker_by_base_name [of "(0, 0, 0)" marker_tag "parse_structure_block marker_tag"
      "uniform_world foreign_marker" "[unit_box]" "[((0, 0, 0), \<lparr>be_nbt = Some marker_tag\<rparr>)]"]
  by (simp add: in_any_box_def in_box_def unit_box_def is_structure_block_def
      uniform_world_def foreign_marker_def)

text \<open>
  The claim as worded fails: a block \<open>mymod:structure_block\<close> is taken for a marker just as
  \<open>minecraft:structure_block\<close> is, although their qualified names differ.
\<close>

theorem marker_namespace_counterexample:
  "is_structure_block (uniform_world vanilla_marker) (0, 0, 0) \<and>
   is_structure_block (uniform_world foreign_marker) (0, 0, 0) \<and>
   block_name vanilla_marker = ''minecraft:structure_block'' \<and>
   block_name foreign_marker = ''mymod:structure_block''"
  by (simp add: is_structure_block_def uniform_world_def vanilla_marker_def
      foreign_marker_def block_name_def)

subsection \<open>The empty test of the voxel scan\<close>

text \<open>
  Claim C10. With remove-blocks off, the scan of a list of positions treats its first
  position by the base name of the block there alone: where the base name is \<open>air\<close>, or
  there is none, the palette and the block list go on to the rest of the list as they
  are, whatever the namespace and the properties; with any other base name the block gets
  its palette index and an entry is appended before the rest is scanned. At the end of
  the list the scan returns what it has gathered.
\<close>

theorem air_test_by_base_name:
  "get_block world p = Inr blk \<Longrightarrow>
   scan_voxels world box be_map False (p # ps) (st, blocks_list) =
     (if base_name blk = None \<or> base_name blk = Some ''air''
      then scan_voxels world box be_map False ps (st, blocks_list)
      else scan_voxels world box be_map False ps
             (snd (get_state_index blk st),
              blocks_list @ [block_entry box be_map p (fst (get_state_index blk st))]))
   \<and> scan_voxels world box be_map False [] (st, blocks_list) = Inr (st, blocks_list)"
  by (auto simp: is_air_def split: option.splits prod.splits)

text \<open>The theorem at two voxels, foreign air with a property and then stone: the air is
  passed over, the stone is kept.\<close>

theorem air_test_by_base_name_witness:
  "(case scan_voxels patch_world patch_box Map.empty False [(0, 0, 0), (1, 0, 0)]
           (empty_palette, []) of
      Inl e \<Rightarrow> None
    | Inr (st, blocks_list) \<Rightarrow> Some (palette st, blocks_list)) =
   Some ([CompoundTag [(''Name'', StringTag ''minecraft:stone'')]],
         [CompoundTag [(''pos'', IntArrayTag [1, 0, 0]), (''state'', IntTag 0)]])"
proof -
  have g0: "get_block patch_world (0, 0, 0) = Inr foreign_air"
    by (simp add: patch_world_def patch_block_def)
  have g1: "get_block patch_world (1, 0, 0) = Inr stone"
    by (simp add: patch_world_def patch_block_def)
  have s0: "scan_voxels patch_world patch_box Map.empty False [(0, 0, 0), (1, 0, 0)]
      (empty_palette, []) =
      scan_voxels patch_world patch_box Map.empty False [(1, 0, 0)] (empty_palette, [])"
    using air_test_by_base_name [OF g0, of patch_box Map.empty "[(1, 0, 0)]" empty_palette "[]"]
    by (simp add: foreign_air_def)
  have s1: "scan_voxels patch_world patch_box Map.empty False [(1, 0, 0)] (empty_palette, []) =
      Inr (snd (get_state_index stone empty_palette),
           [block_entry patch_box Map.empty (1, 0, 0) (fst (get_state_index stone empty_palette))])"
    using air_test_by_base_name [OF g1, of patch_box Map.empty "[]" empty_palette "[]"]
      air_test_by_base_name [OF g1, of patch_box Map.empty "[]"
        "snd (get_state_index stone empty_palette)"
        "[block_entry patch_box Map.empty (1, 0, 0) (fst (get_state_index stone empty_palette))]"]
    by (simp add: stone_def)
  have gs: "get_state_index stone empty_palette =
      (0, \<lparr>palette = [CompoundTag [(''Name'', StringTag ''minecraft:stone'')]],
           palette_index = (Map.empty :: state_key \<rightharpoonup> nat)(state_key stone \<mapsto> 0)\<rparr>)"
    by (simp add: get_state_index_def empty_palette_def Let_def
        universal_block_to_java_state_def block_name_def block_props_def stone_def)
  show ?thesis
    unfolding s0 s1 gs
    by (simp add: block_entry_def rel_pos_def patch_box_def)
qed

subsection \<open>The block position of a free-floating object\<close>

lemma floor_minus_half: "\<lfloor>- (1 / 2) :: rat\<rfloor> = - 1"
  by (simp add: floor_eq_iff)

lemma floor_half: "\<lfloor>(1 / 2) :: rat\<rfloor> = 0"
  by (simp add: floor_eq_iff)

text \<open>
  Claim C1, at an object west of the origin. The object at \<open>(-0.5, 0.0, 0.5)\<close> lies in the
  box from \<open>(-1, 0, 0)\<close> to \<open>(0, 1, 1)\<close>. Its entry carries the relative float position
  \<open>(0.5, 0.0, 0.5)\<close> and the relative block position \<open>(1, 0, 0)\<close>, where the floor of the
  float position minus the box minimum is \<open>(0, 0, 0)\<close>: \<^verbatim>\<open>int()\<close> rounds \<open>-0.5\<close> to \<open>0\<close>, not
  to \<open>-1\<close>.
\<close>

theorem entity_block_pos_truncates:
  "entity_entry unit_box_west \<lparr>ent_nbt = Some west_entity_tag\<rparr> =
     Some (CompoundTag [(''pos'', DoubleArrayTag [1 / 2, 0, 1 / 2]),
                        (''blockPos'', IntArrayTag [1, 0, 0]),
                        (''nbt'', west_entity_tag)])
   \<and> float_in_box unit_box_west (- 1 / 2, 0, 1 / 2)
   \<and> [\<lfloor>(- 1 / 2) :: rat\<rfloor> - min_x unit_box_west, \<lfloor>0 :: rat\<rfloor> - min_y unit_box_west,
       \<lfloor>(1 / 2) :: rat\<rfloor> - min_z unit_box_west] = [0, 0, 0]"
  by (simp add: entity_entry_def read_pos_def finite_pos_def west_entity_tag_def
      unit_box_west_def float_in_box_def rel_float_def rel_block_def trunc_def floor_half
      floor_minus_half)

subsection \<open>The node-tree locator\<close>

lemma upt_shift: "[0..<Suc n] = 0 # map Suc [0..<n]"
  by (simp add: upt_conv_Cons map_Suc_upt del: upt_Suc)

lemma iter_drop_path:
  "map snd (iter_nbt_tree t p) = spec_nodes t"
  "map snd (iter_compound kvs p) =
     concat (map (\<lambda>kv. (fst kv, snd kv) # spec_nodes (snd kv)) kvs)"
  "map snd (iter_list vs i p) =
     concat (map (\<lambda>j. (str_nat (i + j), vs ! j) # spec_nodes (vs ! j)) [0..<length vs])"
proof (induction t p and kvs p and vs i p rule: iter_nbt_tree_iter_compound_iter_list.induct)
  case (9 k v kvs prefix)
  then show ?case by (cases v) (simp_all add: Let_def)
next
  case (11 v vs i prefix)
  then show ?case
    by (cases v) (simp_all add: Let_def upt_shift comp_def del: upt_Suc)
qed simp_all

lemma first_str_find:
  "first_str subs ys = map_option (\<lambda>kv. trimmed (snd kv)) (find (str_hit subs) (map snd ys))"
  by (induction subs ys rule: first_str.induct)
     (auto simp: str_hit_def trimmed_def raw_str_def split: py_value.splits)

lemma first_int_find:
  "first_int subs ys =
     Option.bind (find (int_hit subs) (map snd ys)) (\<lambda>kv. py_int (nbt_value (snd kv)))"
  by (induction subs ys rule: first_int.induct)
     (auto simp: int_hit_def split: option.splits)

lemma first_str_nonempty: "first_str subs ys = Some n \<Longrightarrow> n \<noteq> []"
  by (induction subs ys rule: first_str.induct) (auto split: if_splits py_value.splits)

text \<open>
  Claim C6, as the code has it. Without the paths, the nodes the traversal yields are
  those of the depth-first walk the specification describes: at a compound the children
  in its own order, at a sequence the children by index, each child before its
  descendants. The string search returns, with the blanks around it removed, the value of
  the first of these nodes whose lowercased key contains one of the substrings and whose
  value is a string that is not empty once trimmed. The integer search returns \<^verbatim>\<open>int()\<close>
  of the value of the first node whose key matches and on whose value \<^verbatim>\<open>int()\<close> succeeds;
  matching nodes on which it fails are passed over.
\<close>

theorem locator_first_match:
  "map snd (iter_nbt_tree t []) = spec_nodes t
   \<and> find_first_str t subs =
       map_option (\<lambda>kv. trimmed (snd kv)) (find (str_hit subs) (spec_nodes t))
   \<and> find_first_int t subs =
       Option.bind (find (int_hit subs) (spec_nodes t)) (\<lambda>kv. py_int (nbt_value (snd kv)))"
  by (simp add: find_first_str_def find_first_int_def first_str_find first_int_find
      iter_drop_path(1))

text \<open>The theorem at metadata whose first two candidates for an integer are refused by
  \<^verbatim>\<open>int()\<close>: the search goes on to the third, a float, and truncates it.\<close>

theorem locator_first_match_witness:
  "find_first_int skewed_tag [''sizex''] = Some 7
   \<and> Option.bind (find (int_hit [''sizex'']) (spec_nodes skewed_tag))
        (\<lambda>kv. py_int (nbt_value (snd kv))) = Some 7
   \<and> find_first_str skewed_tag [''name''] = Some ''house''"
proof -
  have a: "find_first_int skewed_tag [''sizex''] = Some 7"
    by code_simp
  have b: "find_first_str skewed_tag [''name''] = Some ''house''"
    by code_simp
  from locator_first_match [of skewed_tag "[''sizex'']", THEN conjunct2, THEN conjunct2]
  have c: "Option.bind (find (int_hit [''sizex'']) (spec_nodes skewed_tag))
        (\<lambda>kv. py_int (nbt_value (snd kv))) = Some 7"
    using a by simp
  show ?thesis using a b c by (intro conjI)
qed

text \<open>
  The claim as worded fails where the value has blanks around it: the only node of the
  tree is accepted, its value is \<open>" house "\<close>, and the search returns \<open>"house"\<close>.
\<close>

theorem locator_untrimmed_counterexample:
  "spec_nodes padded_tag = [(''name'', StringTag '' house '')]
   \<and> str_hit [''name''] (''name'', StringTag '' house '')
   \<and> raw_str (StringTag '' house '') = '' house ''
   \<and> find_first_str padded_tag [''name''] = Some ''house''"
  by code_simp

subsection \<open>Resolving a marker\<close>

lemma scan_block_entities_append:
  "scan_block_entities world boxes (xs @ ys) out =
     scan_block_entities world boxes ys (scan_block_entities world boxes xs out)"
  by (induction world boxes xs out rule: scan_block_entities.induct)
     (auto split: option.splits)

lemma parsed_of_append: "parsed_of (xs @ ys) = parsed_of xs @ parsed_of ys"
  by (induction xs rule: parsed_of.induct) (auto split: option.splits)

lemma parse_found_iff:
  "parse_structure_block tag = Some r \<longleftrightarrow>
     (\<exists>name ox oy oz sx sy sz.
        find_first_str tag name_keys = Some name \<and>
        find_first_int tag (fst offset_keys) = Some ox \<and>
        find_first_int tag (fst (snd offset_keys)) = Some oy \<and>
        find_first_int tag (snd (snd offset_keys)) = Some oz \<and>
        find_first_int tag (fst size_keys) = Some sx \<and>
        find_first_int tag (fst (snd size_keys)) = Some sy \<and>
        find_first_int tag (snd (snd size_keys)) = Some sz \<and>
        0 < sx \<and> 0 < sy \<and> 0 < sz \<and>
        r = \<lparr>sd_name = name, sd_offset = (ox, oy, oz), sd_size = (sx, sy, sz)\<rparr>)"
proof (cases "find_first_str tag name_keys")
  case None
  then show ?thesis by (simp add: parse_structure_block_def)
next
  case (Some name)
  then have ne: "name \<noteq> []"
    using first_str_nonempty by (auto simp: find_first_str_def)
  show ?thesis
    using Some ne
    by (auto simp: parse_structure_block_def Let_def not_le)
qed

lemma scan_drops_failed:
  assumes "parse_structure_block tag = None"
  shows "parsed_of (scan_block_entities world boxes
            (bes1 @ (p, \<lparr>be_nbt = Some tag\<rparr>) # bes2) []) =
         parsed_of (scan_block_entities world boxes bes1 []) @
         parsed_of (scan_block_entities world boxes bes2 [])"
proof -
  let ?out = "scan_block_entities world boxes bes1 []"
  have "scan_block_entities world boxes (bes1 @ (p, \<lparr>be_nbt = Some tag\<rparr>) # bes2) [] =
        scan_block_entities world boxes ((p, \<lparr>be_nbt = Some tag\<rparr>) # bes2) ?out"
    by (simp add: scan_block_entities_append)
  moreover have
    "parsed_of (scan_block_entities world boxes ((p, \<lparr>be_nbt = Some tag\<rparr>) # bes2) ?out)
      = parsed_of ?out @ parsed_of (scan_block_entities world boxes bes2 [])"
    using assms
      scan_block_entities_acc [of world boxes bes2 ?out]
      scan_block_entities_acc [of world boxes bes2 "?out @ [(p, tag, None)]"]
    by (auto simp: parsed_of_append)
  ultimately show ?thesis by simp
qed

text \<open>
  Claim C7. The parser gives a record exactly when the name search and the six integer
  searches all find something and the three sizes are positive, and the record holds
  what they found. A candidate whose metadata gives no record adds nothing to the records
  of the scan, and the block entities before and after it are resolved as they would be
  without it.
\<close>

theorem marker_record_iff:
  "(parse_structure_block tag = Some r \<longleftrightarrow>
     (\<exists>name ox oy oz sx sy sz.
        find_first_str tag name_keys = Some name \<and>
        find_first_int tag (fst offset_keys) = Some ox \<and>
        find_first_int tag (fst (snd offset_keys)) = Some oy \<and>
        find_first_int tag (snd (snd offset_keys)) = Some oz \<and>
        find_first_int tag (fst size_keys) = Some sx \<and>
        find_first_int tag (fst (snd size_keys)) = Some sy \<and>
        find_first_int tag (snd (snd size_keys)) = Some sz \<and>
        0 < sx \<and> 0 < sy \<and> 0 < sz \<and>
        r = \<lparr>sd_name = name, sd_offset = (ox, oy, oz), sd_size = (sx, sy, sz)\<rparr>))
   \<and> (parse_structure_block bad = None \<longrightarrow>
        parsed_of (scan_block_entities world boxes
            (bes1 @ (p, \<lparr>be_nbt = Some bad\<rparr>) # bes2) []) =
        parsed_of (scan_block_entities world boxes bes1 []) @
        parsed_of (scan_block_entities world boxes bes2 []))"
  using parse_found_iff [of tag r] scan_drops_failed [of bad world boxes bes1 p bes2]
  by blast

text \<open>The theorem at a marker of height zero followed, one block further east, by a
  well-formed one.\<close>

theorem marker_record_iff_witness:
  "parse_structure_block flat_tag = None
   \<and> parse_structure_block marker_tag =
       Some \<lparr>sd_name = ''mystructure:house'', sd_offset = (0, 1, 0), sd_size = (3, 2, 3)\<rparr>
   \<and> parsed_of (scan_block_entities (uniform_world vanilla_marker) [patch_box]
        ([] @ ((0, 0, 0), \<lparr>be_nbt = Some flat_tag\<rparr>) #
           [((1, 0, 0), \<lparr>be_nbt = Some marker_tag\<rparr>)]) []) =
     [((1, 0, 0),
       \<lparr>sd_name = ''mystructure:house'', sd_offset = (0, 1, 0), sd_size = (3, 2, 3)\<rparr>)]"
proof -
  have a: "parse_structure_block flat_tag = None"
    by code_simp
  have b: "parse_structure_block marker_tag =
      Some \<lparr>sd_name = ''mystructure:house'', sd_offset = (0, 1, 0), sd_size = (3, 2, 3)\<rparr>"
    by code_simp
  have c: "parsed_of (scan_block_entities (uniform_world vanilla_marker) [patch_box]
        ([] @ ((0, 0, 0), \<lparr>be_nbt = Some flat_tag\<rparr>) #
           [((1, 0, 0), \<lparr>be_nbt = Some marker_tag\<rparr>)]) []) =
     [((1, 0, 0),
       \<lparr>sd_name = ''mystructure:house'', sd_offset = (0, 1, 0), sd_size = (3, 2, 3)\<rparr>)]"
    using a b marker_record_iff [of marker_tag
        "\<lparr>sd_name = ''mystructure:house'', sd_offset = (0, 1, 0), sd_size = (3, 2, 3)\<rparr>"
        flat_tag "uniform_world vanilla_marker" "[patch_box]" "[]" "(0, 0, 0)"
        "[((1, 0, 0), \<lparr>be_nbt = Some marker_tag\<rparr>)]"]
    by (simp add: in_any_box_def in_box_def patch_box_def is_structure_block_def
        uniform_world_def vanilla_marker_def)
  show ?thesis using a b c by simp
qed

subsection \<open>The export loop\<close>

lemma export_loop_fractions:
  "map snd (export_loop attempt t i parsed w) =
     map (\<lambda>k. of_nat k / of_nat t) [i..<i + length parsed]"
proof (induction parsed arbitrary: i w)
  case Nil
  then show ?case by simp
next
  case (Cons a parsed)
  obtain p data where a: "a = (p, data)" by (cases a)
  obtain res w' where r: "attempt w (sd_name data) (target_box p data) = (res, w')"
    by (cases "attempt w (sd_name data) (target_box p data)")
  show ?case
    using Cons.IH [of "Suc i" w']
    by (simp add: a r Let_def upt_conv_Cons del: upt_Suc)
qed

lemma fractions_increasing:
  "0 < t \<Longrightarrow> sorted_wrt (<) (map (\<lambda>k. (of_nat k / of_nat t) :: rat) [i..<j])"
  by (simp add: sorted_wrt_map divide_strict_right_mono sorted_wrt_iff_nth_less)

text \<open>
  Claim C8. Whatever the attempts do, also when they raise, the loop makes one turn per
  marker and yields \<open>i / total\<close> at the end of turn \<open>i\<close>: the fractions are
  \<open>1 / total, 2 / total, \<dots>, total / total\<close>, strictly increasing, the first \<open>1 / total\<close> and
  the last \<open>1\<close>. A turn whose attempt raises records the exception, yields its fraction
  and is followed by the turn of the next marker.
\<close>

theorem progress_after_every_record:
  "parsed \<noteq> [] \<Longrightarrow>
     map snd (export_structures attempt parsed w) =
       map (\<lambda>k. of_nat k / of_nat (length parsed)) [1..<Suc (length parsed)]
   \<and> length (export_structures attempt parsed w) = length parsed
   \<and> sorted_wrt (<) (map snd (export_structures attempt parsed w))
   \<and> hd (map snd (export_structures attempt parsed w)) = 1 / of_nat (length parsed)
   \<and> last (map snd (export_structures attempt parsed w)) = 1
   \<and> (attempt w0 (sd_name data) (target_box p data) = (Inl e, w1) \<longrightarrow>
        export_loop attempt t i ((p, data) # rest) w0 =
          (Inl e, of_nat i / of_nat t) # export_loop attempt t (Suc i) rest w1)"
proof -
  assume ne: "parsed \<noteq> []"
  let ?n = "length parsed"
  have pos: "0 < ?n" using ne by simp
  have m: "map snd (export_structures attempt parsed w) =
       map (\<lambda>k. of_nat k / of_nat ?n) [1..<Suc ?n]"
    using ne export_loop_fractions [of attempt ?n 1 parsed w]
    by (simp add: export_structures_def)
  have l: "length (export_structures attempt parsed w) = ?n"
    using arg_cong [OF m, of length] by (simp del: upt_Suc)
  have s: "sorted_wrt (<) (map snd (export_structures attempt parsed w))"
    unfolding m using fractions_increasing [OF pos] by blast
  have h: "hd (map snd (export_structures attempt parsed w)) = 1 / of_nat ?n"
    unfolding m using pos by (simp add: upt_conv_Cons del: upt_Suc)
  have la: "last (map snd (export_structures attempt parsed w)) = 1"
    unfolding m using pos by (cases parsed) (simp_all add: last_map)
  have c: "attempt w0 (sd_name data) (target_box p data) = (Inl e, w1) \<longrightarrow>
        export_loop attempt t i ((p, data) # rest) w0 =
          (Inl e, of_nat i / of_nat t) # export_loop attempt t (Suc i) rest w1"
    by simp
  show ?thesis using m l s h la c by blast
qed

text \<open>The theorem at two markers, the first of which fails to export.\<close>

theorem progress_after_every_record_witness:
  "two_markers \<noteq> []
   \<and> flaky_attempt 0 ''flat'' (target_box (0, 0, 0)
        \<lparr>sd_name = ''flat'', sd_offset = (0, 1, 0), sd_size = (3, 1, 3)\<rparr>) =
       (Inl PyException, 0)
   \<and> export_structures flaky_attempt two_markers 0 =
       [(Inl PyException, 1 / 2), (Inr ''house.nbt'', 1)]
   \<and> last (map snd (export_structures flaky_attempt two_markers 0)) = 1"
  using progress_after_every_record [of two_markers flaky_attempt 0 0
      "\<lparr>sd_name = ''flat'', sd_offset = (0, 1, 0), sd_size = (3, 1, 3)\<rparr>" "(0, 0, 0)"
      PyException 0 2 1
      "[((8, 0, 0), \<lparr>sd_name = ''house'', sd_offset = (0, 1, 0), sd_size = (3, 2, 3)\<rparr>)]"]
  by (simp add: two_markers_def flaky_attempt_def export_structures_def Let_def)

subsection \<open>The document without blocks\<close>

lemma scan_voxels_removed: "scan_voxels world box be_map True ps acc = Inr acc"
  by (induction ps) (cases acc, simp)+

lemma collect_block_entities_no_block:
  "collect_block_entities_from (world\<lparr>get_block := g\<rparr>) box cs out =
   collect_block_entities_from world box cs out"
  by (induction cs arbitrary: out) (auto split: sum.splits py_error.splits)

lemma collect_entities_no_block:
  "collect_entities_from (world\<lparr>get_block := g\<rparr>) box cs out =
   collect_entities_from world box cs out"
  by (induction cs arbitrary: out) (auto split: sum.splits py_error.splits option.splits)

text \<open>
  Claim C9. With remove-blocks on, the document has the box's dimensions as size, an
  empty palette and an empty block list; its entity list is what the entity pass collects
  when include-entities is on and empty when it is off; and no block is read: the result
  is the same whatever \<open>get_block\<close> would answer. The export fails only where reading a
  chunk raises something other than a load error.
\<close>

theorem remove_blocks_document:
  "export_java_structure_nbt world locs box include_entities True =
     (case collect_block_entities_in_box world locs box of
        Inl e \<Rightarrow> Inl e
      | Inr be_map \<Rightarrow>
          (case (if include_entities then collect_entities_from world box locs [] else Inr []) of
             Inl e \<Rightarrow> Inl e
           | Inr entities_list \<Rightarrow>
               Inr (CompoundTag
                 [(''size'', IntArrayTag [max_x box - min_x box, max_y box - min_y box,
                                          max_z box - min_z box]),
                  (''palette'', ListTag []),
                  (''blocks'', ListTag []),
                  (''entities'', ListTag entities_list)])))
   \<and> export_java_structure_nbt (world\<lparr>get_block := g\<rparr>) locs box include_entities True =
     export_java_structure_nbt world locs box include_entities True"
  by (simp add: export_java_structure_nbt_def scan_voxels_removed empty_palette_def
      collect_block_entities_in_box_def collect_block_entities_no_block
      collect_entities_no_block Let_def split: sum.splits)

subsection \<open>The palette builder\<close>

lemma index_of_append_in: "k \<in> set ks \<Longrightarrow> index_of (ks @ ls) k = index_of ks k"
  by (induction ks) auto

lemma index_of_append_new: "k \<notin> set ks \<Longrightarrow> index_of (ks @ k # ls) k = length ks"
  by (induction ks) auto

lemma index_of_less: "k \<in> set ks \<Longrightarrow> index_of ks k < length ks"
  by (induction ks) auto

lemma index_of_nth: "k \<in> set ks \<Longrightarrow> ks ! index_of ks k = k"
  by (induction ks) auto

lemma index_of_nth_distinct: "distinct ks \<Longrightarrow> i < length ks \<Longrightarrow> index_of ks (ks ! i) = i"
proof (induction ks arbitrary: i)
  case Nil
  then show ?case by simp
next
  case (Cons k ks)
  show ?case
  proof (cases i)
    case 0
    then show ?thesis by simp
  next
    case (Suc j)
    then have "j < length ks" using Cons.prems by simp
    moreover from this have "ks ! j \<in> set ks" by simp
    ultimately show ?thesis using Cons Suc by auto
  qed
qed

lemma index_of_image:
  assumes "distinct ks"
  shows "index_of ks ` set ks = {0..<length ks}"
proof (rule set_eqI)
  fix i
  show "i \<in> index_of ks ` set ks \<longleftrightarrow> i \<in> {0..<length ks}"
  proof
    assume "i \<in> index_of ks ` set ks"
    then show "i \<in> {0..<length ks}" using index_of_less by auto
  next
    assume "i \<in> {0..<length ks}"
    then have l: "i < length ks" by simp
    then have "index_of ks (ks ! i) = i" using assms index_of_nth_distinct by blast
    moreover have "ks ! i \<in> set ks" using l by simp
    ultimately show "i \<in> index_of ks ` set ks" by force
  qed
qed

lemma index_map_snoc:
  "k \<notin> set ks \<Longrightarrow> (index_map ks)(k \<mapsto> length ks) = index_map (ks @ [k])"
  by (rule ext) (auto simp: index_map_def index_of_append_in index_of_append_new)

lemma first_seen_distinct:
  "distinct ks \<Longrightarrow> distinct (ks @ map state_key (first_seen ks blks))"
proof (induction blks arbitrary: ks)
  case Nil
  then show ?case by simp
next
  case (Cons b blks)
  show ?case
  proof (cases "state_key b \<in> set ks")
    case True
    then show ?thesis using Cons by simp
  next
    case False
    then have "distinct (ks @ [state_key b])" using Cons.prems by simp
    from Cons.IH [OF this] show ?thesis using False by simp
  qed
qed

lemma first_seen_key_set:
  "set (ks @ map state_key (first_seen ks blks)) = set ks \<union> state_key ` set blks"
proof (induction blks arbitrary: ks)
  case Nil
  then show ?case by simp
next
  case (Cons b blks)
  show ?case
  proof (cases "state_key b \<in> set ks")
    case True
    then show ?thesis using Cons.IH [of ks] by auto
  next
    case False
    then show ?thesis using Cons.IH [of "ks @ [state_key b]"] by auto
  qed
qed

lemma push_states_general:
  assumes "palette_index st = index_map ks" and "length (palette st) = length ks"
  shows "push_states blks st =
     (map (\<lambda>b. index_of (ks @ map state_key (first_seen ks blks)) (state_key b)) blks,
      \<lparr>palette = palette st @ map universal_block_to_java_state (first_seen ks blks),
       palette_index = index_map (ks @ map state_key (first_seen ks blks))\<rparr>)"
  using assms
proof (induction blks arbitrary: st ks)
  case Nil
  then show ?case by simp
next
  case (Cons b blks)
  let ?k = "state_key b"
  show ?case
  proof (cases "?k \<in> set ks")
    case True
    then have g: "get_state_index b st = (index_of ks ?k, st)"
      using Cons.prems by (simp add: get_state_index_def index_map_def)
    have s: "set ks \<subseteq> set (ks @ map state_key (first_seen ks blks))" by simp
    show ?thesis
      using Cons.IH [OF Cons.prems] True g
      by (simp add: index_of_append_in)
  next
    case False
    let ?st = "\<lparr>palette = palette st @ [universal_block_to_java_state b],
                palette_index = (palette_index st)(?k \<mapsto> length (palette st))\<rparr>"
    have g: "get_state_index b st = (length ks, ?st)"
      using Cons.prems False by (simp add: get_state_index_def index_map_def Let_def)
    have p1: "palette_index ?st = index_map (ks @ [?k])"
      using Cons.prems False by (simp add: index_map_snoc)
    have p2: "length (palette ?st) = length (ks @ [?k])"
      using Cons.prems by simp
    show ?thesis
      using Cons.IH [OF p1 p2] False g
      by (simp add: index_of_append_new)
  qed
qed

lemma push_states_empty:
  "push_states blks empty_palette =
     (map (\<lambda>b. index_of (map state_key (first_seen [] blks)) (state_key b)) blks,
      \<lparr>palette = map universal_block_to_java_state (first_seen [] blks),
       palette_index = index_map (map state_key (first_seen [] blks))\<rparr>)"
  using push_states_general [of empty_palette "[]" blks]
  by (simp add: empty_palette_def index_map_def)

lemma index_of_inj:
  "a \<in> set ks \<Longrightarrow> b \<in> set ks \<Longrightarrow> index_of ks a = index_of ks b \<longleftrightarrow> a = b"
  using index_of_nth by metis

lemma sort_props_perm:
  "distinct (block_props a) \<Longrightarrow> distinct (block_props b) \<Longrightarrow>
   set (block_props a) = set (block_props b) \<Longrightarrow>
   sort (block_props a) = sort (block_props b)"
  by (rule sorted_distinct_set_unique) simp_all

text \<open>
  Claim C3. Pushed through an empty builder, a sequence of blocks gets, block by block, the
  position of its key among the keys in first-seen order, and the palette ends as the
  states of the first block of each key in that order; these keys are distinct and are
  the keys of the sequence, the palette is as long as they are many and the indices
  returned are exactly the numbers below that length, so every index names the key it was
  given for, and two blocks get the same index exactly when their keys are equal.
  In one step, a key not yet in the index gets the palette's length and its state is
  appended; a key in the index gets its index and nothing changes. Two blocks with the
  same name and the same property pairs in any order have the same key.
\<close>

theorem palette_first_seen:
  "fst (push_states blks empty_palette) =
     map (\<lambda>b. index_of (first_seen_keys blks) (state_key b)) blks
   \<and> palette (snd (push_states blks empty_palette)) =
     map universal_block_to_java_state (first_seen [] blks)
   \<and> distinct (first_seen_keys blks)
   \<and> set (first_seen_keys blks) = state_key ` set blks
   \<and> length (palette (snd (push_states blks empty_palette))) = length (first_seen_keys blks)
   \<and> set (fst (push_states blks empty_palette)) = {0..<length (first_seen_keys blks)}
   \<and> (\<forall>b \<in> set blks.
        index_of (first_seen_keys blks) (state_key b) < length (first_seen_keys blks) \<and>
        first_seen_keys blks ! index_of (first_seen_keys blks) (state_key b) = state_key b)
   \<and> (\<forall>b \<in> set blks. \<forall>c \<in> set blks.
        (index_of (first_seen_keys blks) (state_key b) =
         index_of (first_seen_keys blks) (state_key c)) = (state_key b = state_key c))
   \<and> (palette_index st (state_key b0) = None \<longrightarrow>
        fst (get_state_index b0 st) = length (palette st) \<and>
        palette (snd (get_state_index b0 st)) =
          palette st @ [universal_block_to_java_state b0])
   \<and> (palette_index st (state_key b0) = Some i \<longrightarrow> get_state_index b0 st = (i, st))
   \<and> (block_name a = block_name b1 \<and> distinct (block_props a) \<and> distinct (block_props b1) \<and>
        set (block_props a) = set (block_props b1) \<longrightarrow> state_key a = state_key b1)"
proof -
  let ?ks = "first_seen_keys blks"
  have f1: "fst (push_states blks empty_palette) =
      map (\<lambda>b. index_of ?ks (state_key b)) blks"
    by (simp add: push_states_empty first_seen_keys_def)
  have f2: "palette (snd (push_states blks empty_palette)) =
      map universal_block_to_java_state (first_seen [] blks)"
    by (simp add: push_states_empty)
  have d: "distinct ?ks"
    using first_seen_distinct [of "[]" blks] by (simp add: first_seen_keys_def)
  have s: "set ?ks = state_key ` set blks"
    using first_seen_key_set [of "[]" blks] by (simp add: first_seen_keys_def)
  have len: "length (palette (snd (push_states blks empty_palette))) = length ?ks"
    by (simp add: f2 first_seen_keys_def)
  have "set (map (\<lambda>b. index_of ?ks (state_key b)) blks) = index_of ?ks ` set ?ks"
    by (simp add: s image_image)
  then have den: "set (fst (push_states blks empty_palette)) = {0..<length ?ks}"
    using index_of_image [OF d] by (simp only: f1)
  have mem: "state_key b \<in> set ?ks" if "b \<in> set blks" for b
    using that s by blast
  have m: "\<forall>b \<in> set blks. index_of ?ks (state_key b) < length ?ks \<and>
        ?ks ! index_of ?ks (state_key b) = state_key b"
    by (simp add: mem index_of_less index_of_nth)
  have j: "\<forall>b \<in> set blks. \<forall>c \<in> set blks.
        (index_of ?ks (state_key b) = index_of ?ks (state_key c)) = (state_key b = state_key c)"
    by (simp add: mem index_of_inj)
  have n: "palette_index st (state_key b0) = None \<longrightarrow>
        fst (get_state_index b0 st) = length (palette st) \<and>
        palette (snd (get_state_index b0 st)) =
          palette st @ [universal_block_to_java_state b0]"
    by (simp add: get_state_index_def Let_def)
  have o: "palette_index st (state_key b0) = Some i \<longrightarrow> get_state_index b0 st = (i, st)"
    by (simp add: get_state_index_def)
  have q: "block_name a = block_name b1 \<and> distinct (block_props a) \<and> distinct (block_props b1) \<and>
        set (block_props a) = set (block_props b1) \<longrightarrow> state_key a = state_key b1"
    using sort_props_perm [of a b1] by (simp add: state_key_def)
  show ?thesis
    using f1 f2 d s len den m j n o q by (intro conjI) assumption+
qed

text \<open>The theorem at stone, a log, stone again and the log with its properties in the
  other order; and, for the single step, at the builder that holds stone, pushed the log
  (a new key) and stone (a known one).\<close>

theorem palette_first_seen_witness:
  "fst (push_states [stone, oak_log, stone, oak_log_reordered] empty_palette) = [0, 1, 0, 1]
   \<and> palette (snd (push_states [stone, oak_log, stone, oak_log_reordered] empty_palette)) =
       [universal_block_to_java_state stone, universal_block_to_java_state oak_log]
   \<and> state_key oak_log = state_key oak_log_reordered
   \<and> fst (get_state_index oak_log stone_palette) = 1
   \<and> get_state_index stone stone_palette = (0, stone_palette)"
proof -
  note t = palette_first_seen [of "[stone, oak_log, stone, oak_log_reordered]"
      empty_palette stone 0 oak_log oak_log_reordered]
  have idx: "map (\<lambda>b. index_of (first_seen_keys [stone, oak_log, stone, oak_log_reordered])
                (state_key b)) [stone, oak_log, stone, oak_log_reordered] = [0, 1, 0, 1]"
    by code_simp
  have pal: "map universal_block_to_java_state
      (first_seen [] [stone, oak_log, stone, oak_log_reordered]) =
      [universal_block_to_java_state stone, universal_block_to_java_state oak_log]"
    by code_simp
  have e: "state_key oak_log = state_key oak_log_reordered"
    by code_simp
  from t [THEN conjunct1]
  have a: "fst (push_states [stone, oak_log, stone, oak_log_reordered] empty_palette) =
      [0, 1, 0, 1]"
    by (simp only: idx)
  from t [THEN conjunct2, THEN conjunct1]
  have b: "palette (snd (push_states [stone, oak_log, stone, oak_log_reordered] empty_palette)) =
       [universal_block_to_java_state stone, universal_block_to_java_state oak_log]"
    by (simp only: pal)
  have ne: "state_key oak_log \<noteq> state_key stone"
    by code_simp
  have k1: "palette_index stone_palette (state_key oak_log) = None"
    using ne by (simp add: stone_palette_def get_state_index_def empty_palette_def Let_def)
  have k2: "palette_index stone_palette (state_key stone) = Some 0"
    by (simp add: stone_palette_def get_state_index_def empty_palette_def Let_def)
  have l1: "length (palette stone_palette) = 1"
    by (simp add: stone_palette_def get_state_index_def empty_palette_def Let_def)
  from palette_first_seen [of "[stone]" stone_palette oak_log 0 stone stone]
  have u: "palette_index stone_palette (state_key oak_log) = None \<longrightarrow>
        fst (get_state_index oak_log stone_palette) = length (palette stone_palette) \<and>
        palette (snd (get_state_index oak_log stone_palette)) =
          palette stone_palette @ [universal_block_to_java_state oak_log]"
    by (elim conjE) assumption
  from palette_first_seen [of "[stone]" stone_palette stone 0 stone stone]
  have v: "palette_index stone_palette (state_key stone) = Some 0 \<longrightarrow>
        get_state_index stone stone_palette = (0, stone_palette)"
    by (elim conjE) assumption
  have c: "fst (get_state_index oak_log stone_palette) = 1"
    using u k1 l1 by simp
  have f: "get_state_index stone stone_palette = (0, stone_palette)"
    using v k2 by simp
  show ?thesis using a b e c f by (intro conjI)
qed

subsection \<open>The block list\<close>

lemma scan_voxels_general:
  assumes "\<forall>p \<in> set ps. get_block world p = Inr (blk_at p)"
  shows "scan_voxels world box be_map False ps (st, bl) =
     Inr (snd (push_states (map blk_at (solid_at blk_at ps)) st),
          bl @ map (\<lambda>(p, i). block_entry box be_map p i)
                 (zip (solid_at blk_at ps)
                      (fst (push_states (map blk_at (solid_at blk_at ps)) st))))"
  using assms
proof (induction ps arbitrary: st bl)
  case Nil
  then show ?case by (simp add: solid_at_def)
next
  case (Cons p ps)
  have g: "get_block world p = Inr (blk_at p)" using Cons.prems by simp
  have r: "\<forall>q \<in> set ps. get_block world q = Inr (blk_at q)" using Cons.prems by simp
  show ?case
  proof (cases "is_air (blk_at p)")
    case True
    then show ?thesis using Cons.IH [OF r, of st bl] g by (simp add: solid_at_def)
  next
    case False
    obtain i st' where s: "get_state_index (blk_at p) st = (i, st')"
      by (cases "get_state_index (blk_at p) st")
    show ?thesis
      using Cons.IH [OF r, of st' "bl @ [block_entry box be_map p i]"] g False s
      by (simp add: solid_at_def split: prod.splits)
  qed
qed

lemma map_zip_map: "map g (zip xs (map f xs)) = map (\<lambda>x. g (x, f x)) xs"
  by (induction xs) auto

lemma sorted_wrt_concat_map:
  assumes "sorted_wrt (<) ys"
    and "\<And>y. y \<in> set ys \<Longrightarrow> sorted_wrt R (f y)"
    and "\<And>y y' a b. y < y' \<Longrightarrow> a \<in> set (f y) \<Longrightarrow> b \<in> set (f y') \<Longrightarrow> R a b"
  shows "sorted_wrt R (concat (map f (ys :: int list)))"
  using assms
  by (induction ys) (auto simp: sorted_wrt_append)

lemma py_range_sorted: "sorted_wrt (<) (py_range a b)"
  unfolding py_range_def by (simp add: sorted_wrt_iff_nth_less)

lemma scan_order_sorted: "sorted_wrt scan_before (scan_order box)"
  unfolding scan_order_def
proof (rule sorted_wrt_concat_map [OF py_range_sorted], goal_cases)
  case (1 y)
  show ?case
  proof (rule sorted_wrt_concat_map [OF py_range_sorted], goal_cases)
    case (1 z)
    show ?case
      using py_range_sorted [of "min_x box" "max_x box"]
      by (simp add: sorted_wrt_map scan_before_def)
  next
    case (2 z z' a b)
    then show ?case by (auto simp: scan_before_def)
  qed
next
  case (2 y y' a b)
  then show ?case by (auto simp: scan_before_def)
qed

lemma scan_order_mem: "(x, y, z) \<in> set (scan_order box) \<longleftrightarrow> in_box box (x, y, z)"
  unfolding scan_order_def py_range_def in_box_def
  by (simp add: image_iff)

lemma scan_order_set: "set (scan_order box) = {p. in_box box p}"
proof (rule set_eqI)
  fix p :: pos
  obtain x y z where "p = (x, y, z)" by (cases p)
  then show "p \<in> set (scan_order box) \<longleftrightarrow> p \<in> {p. in_box box p}"
    using scan_order_mem by simp
qed

text \<open>
  Claim C5. With remove-blocks off, where every block of the box can be read and the
  block-entity and entity passes succeed, the document's block list is one entry for each
  position of the scan whose block passes the empty test, in scan order, holding that
  position minus the box minimum, the palette index of its block's key, and the stripped
  tag of the block entity there if there is one. The scan order holds the positions of
  the box, each once, in Y-major, then Z, then X order.
\<close>

theorem blocks_in_scan_order:
  assumes "\<forall>p \<in> set (scan_order box). get_block world p = Inr (blk_at p)"
    and "collect_block_entities_in_box world locs box = Inr be_map"
    and "(if include_entities then collect_entities_from world box locs [] else Inr []) =
           Inr ents"
  shows "export_java_structure_nbt world locs box include_entities False =
     Inr (CompoundTag
       [(''size'', IntArrayTag [max_x box - min_x box, max_y box - min_y box,
                                max_z box - min_z box]),
        (''palette'', ListTag (map universal_block_to_java_state
            (first_seen [] (map blk_at (solid_at blk_at (scan_order box)))))),
        (''blocks'', ListTag (map
            (\<lambda>p. block_entry box be_map p
               (index_of (first_seen_keys (map blk_at (solid_at blk_at (scan_order box))))
                  (state_key (blk_at p))))
            (solid_at blk_at (scan_order box)))),
        (''entities'', ListTag ents)])
   \<and> sorted_wrt scan_before (scan_order box)
   \<and> set (scan_order box) = {p. in_box box p}
   \<and> block_entry box be_map (x, y, z) i =
       CompoundTag ([(''pos'', IntArrayTag [x - min_x box, y - min_y box, z - min_z box]),
                     (''state'', IntTag (int i))] @
          (case be_map (x, y, z) of
             None \<Rightarrow> []
           | Some be \<Rightarrow> (case be_nbt be of None \<Rightarrow> [] | Some tag \<Rightarrow> [(''nbt'', strip_xyz tag)])))"
proof -
  let ?solid = "solid_at blk_at (scan_order box)"
  let ?blks = "map blk_at ?solid"
  have sc: "scan_voxels world box be_map False (scan_order box) (empty_palette, []) =
     Inr (snd (push_states ?blks empty_palette),
          map (\<lambda>(p, i). block_entry box be_map p i)
            (zip ?solid (fst (push_states ?blks empty_palette))))"
    using scan_voxels_general [OF assms(1), of box be_map empty_palette "[]"] by simp
  have ps: "push_states ?blks empty_palette =
     (map (\<lambda>b. index_of (first_seen_keys ?blks) (state_key b)) ?blks,
      \<lparr>palette = map universal_block_to_java_state (first_seen [] ?blks),
       palette_index = index_map (first_seen_keys ?blks)\<rparr>)"
    using push_states_empty [of ?blks] by (simp add: first_seen_keys_def)
  have zp: "map (\<lambda>(p, i). block_entry box be_map p i)
            (zip ?solid (map (\<lambda>b. index_of (first_seen_keys ?blks) (state_key b)) ?blks)) =
        map (\<lambda>p. block_entry box be_map p
               (index_of (first_seen_keys ?blks) (state_key (blk_at p)))) ?solid"
    using map_zip_map [of "\<lambda>(p, i). block_entry box be_map p i"
        ?solid "\<lambda>p. index_of (first_seen_keys ?blks) (state_key (blk_at p))"]
    by (simp add: comp_def)
  have sc': "scan_voxels world box be_map False (scan_order box) (empty_palette, []) =
     Inr (\<lparr>palette = map universal_block_to_java_state (first_seen [] ?blks),
           palette_index = index_map (first_seen_keys ?blks)\<rparr>,
          map (\<lambda>p. block_entry box be_map p
               (index_of (first_seen_keys ?blks) (state_key (blk_at p)))) ?solid)"
    unfolding sc ps using zp by simp
  have ex: "export_java_structure_nbt world locs box include_entities False =
     Inr (CompoundTag
       [(''size'', IntArrayTag [max_x box - min_x box, max_y box - min_y box,
                                max_z box - min_z box]),
        (''palette'', ListTag (map universal_block_to_java_state (first_seen [] ?blks))),
        (''blocks'', ListTag (map
            (\<lambda>p. block_entry box be_map p
               (index_of (first_seen_keys ?blks) (state_key (blk_at p)))) ?solid)),
        (''entities'', ListTag ents)])"
    using assms(3)
    by (cases include_entities) (simp_all add: export_java_structure_nbt_def Let_def assms(2) sc')
  have be: "block_entry box be_map (x, y, z) i =
       CompoundTag ([(''pos'', IntArrayTag [x - min_x box, y - min_y box, z - min_z box]),
                     (''state'', IntTag (int i))] @
          (case be_map (x, y, z) of
             None \<Rightarrow> []
           | Some be \<Rightarrow> (case be_nbt be of None \<Rightarrow> [] | Some tag \<Rightarrow> [(''nbt'', strip_xyz tag)])))"
    by (simp add: block_entry_def rel_pos_def Let_def split: option.splits)
  show ?thesis
    using ex scan_order_sorted scan_order_set be by blast
qed

text \<open>The theorem at the two-by-two patch: air, stone, dirt, stone in scan order.\<close>

theorem blocks_in_scan_order_witness:
  "export_java_structure_nbt patch_world [(0, 0)] patch_box True False =
     Inr (CompoundTag
       [(''size'', IntArrayTag [2, 2, 1]),
        (''palette'', ListTag [CompoundTag [(''Name'', StringTag ''minecraft:stone'')],
                               CompoundTag [(''Name'', StringTag ''minecraft:dirt'')]]),
        (''blocks'', ListTag
           [CompoundTag [(''pos'', IntArrayTag [1, 0, 0]), (''state'', IntTag 0)],
            CompoundTag [(''pos'', IntArrayTag [0, 1, 0]), (''state'', IntTag 1)],
            CompoundTag [(''pos'', IntArrayTag [1, 1, 0]), (''state'', IntTag 0)]]),
        (''entities'', ListTag [])])"
proof -
  have h1: "\<forall>p \<in> set (scan_order patch_box). get_block patch_world p = Inr (patch_block p)"
    by (simp add: patch_world_def)
  have h2: "collect_block_entities_in_box patch_world [(0, 0)] patch_box = Inr Map.empty"
    by (simp add: collect_block_entities_in_box_def patch_world_def)
  have h3: "(if True then collect_entities_from patch_world patch_box [(0, 0)] [] else Inr [])
      = Inr []"
    by (simp add: patch_world_def)
  have sz: "max_x patch_box - min_x patch_box = 2" "max_y patch_box - min_y patch_box = 2"
    "max_z patch_box - min_z patch_box = 1"
    by (simp_all add: patch_box_def)
  have pal: "map universal_block_to_java_state
      (first_seen [] (map patch_block (solid_at patch_block (scan_order patch_box)))) =
      [CompoundTag [(''Name'', StringTag ''minecraft:stone'')],
       CompoundTag [(''Name'', StringTag ''minecraft:dirt'')]]"
    by code_simp
  have blk: "map (\<lambda>p. block_entry patch_box Map.empty p
               (index_of (first_seen_keys
                   (map patch_block (solid_at patch_block (scan_order patch_box))))
                  (state_key (patch_block p))))
            (solid_at patch_block (scan_order patch_box)) =
       [CompoundTag [(''pos'', IntArrayTag [1, 0, 0]), (''state'', IntTag 0)],
        CompoundTag [(''pos'', IntArrayTag [0, 1, 0]), (''state'', IntTag 1)],
        CompoundTag [(''pos'', IntArrayTag [1, 1, 0]), (''state'', IntTag 0)]]"
    by code_simp
  from blocks_in_scan_order [OF h1 h2 h3, of 0 0 0 0, THEN conjunct1]
  show ?thesis
    by (simp only: sz pal blk)
qed

end
